theory Spec2Isabelle
  imports Main "HOL-Library.AList" "HOL-Library.Sublist"
begin

section \<open>Values, exceptions and collaborators\<close>

text \<open>
  The orchestrator of \<^verbatim>\<open>system_integration.py\<close> moves Python values between
  collaborators and looks into a few of them with \<^verbatim>\<open>dict.get\<close>, \<^verbatim>\<open>in\<close>,
  \<^verbatim>\<open>del\<close>, item assignment, truth tests and one \<^verbatim>\<open>for\<close> loop. The values are
  modelled by the JSON-like universe below. A dictionary is an association list in
  insertion order. A value of the model is the content of an object. The orchestrator
  mutates one object that it did not create, the dictionary returned by
  \<^verbatim>\<open>decrypt_user_data\<close>; whether that object is also an object of the stored
  ciphertext is part of the environment (\<open>decrypt_shares\<close> below), and the mutation is
  then written to the stored ciphertext as well.
\<close>

datatype pyval =
    VNone
  | VBool bool
  | VInt int
  | VStr string
  | VList "pyval list"
  | VDict "(string \<times> pyval) list"

type_synonym pydict = "(string \<times> pyval) list"

datatype exn =
    KeyError string
  | TypeError
  | AttributeError
  | OverflowError
  | CollaboratorError string

text \<open>Python's truth test, as used by \<^verbatim>\<open>if x.get(key, False):\<close>.\<close>

fun py_truthy :: "pyval \<Rightarrow> bool" where
  "py_truthy VNone = False"
| "py_truthy (VBool b) = b"
| "py_truthy (VInt i) = (i \<noteq> 0)"
| "py_truthy (VStr s) = (s \<noteq> [])"
| "py_truthy (VList xs) = (xs \<noteq> [])"
| "py_truthy (VDict d) = (d \<noteq> [])"

text \<open>\<^verbatim>\<open>d.get(key, default)\<close> on a dictionary.\<close>

definition dict_get :: "pydict \<Rightarrow> string \<Rightarrow> pyval \<Rightarrow> pyval" where
  "dict_get d k dflt = (case map_of d k of None \<Rightarrow> dflt | Some v \<Rightarrow> v)"

text \<open>\<^verbatim>\<open>d[key]\<close> on a dictionary: a missing key raises \<^verbatim>\<open>KeyError\<close>.\<close>

definition dict_item :: "pydict \<Rightarrow> string \<Rightarrow> exn + pyval" where
  "dict_item d k = (case map_of d k of None \<Rightarrow> Inl (KeyError k) | Some v \<Rightarrow> Inr v)"

text \<open>\<^verbatim>\<open>x.get(key, default)\<close> on any value: only a dictionary has the method.\<close>

fun py_get :: "pyval \<Rightarrow> string \<Rightarrow> pyval \<Rightarrow> exn + pyval" where
  "py_get (VDict d) k dflt = Inr (dict_get d k dflt)"
| "py_get _ k dflt = Inl AttributeError"

text \<open>\<^verbatim>\<open>key in x\<close> for a string key.\<close>

fun py_contains :: "string \<Rightarrow> pyval \<Rightarrow> exn + bool" where
  "py_contains k (VDict d) = Inr (map_of d k \<noteq> None)"
| "py_contains k (VStr s) = Inr (sublist k s)"
| "py_contains k (VList xs) = Inr (VStr k \<in> set xs)"
| "py_contains k _ = Inl TypeError"

text \<open>\<^verbatim>\<open>del x[key]\<close> and \<^verbatim>\<open>x[key] = value\<close> for a string key.\<close>

fun py_delitem :: "pyval \<Rightarrow> string \<Rightarrow> exn + pyval" where
  "py_delitem (VDict d) k =
     (if map_of d k = None then Inl (KeyError k) else Inr (VDict (AList.delete k d)))"
| "py_delitem _ k = Inl TypeError"

fun py_setitem :: "pyval \<Rightarrow> string \<Rightarrow> pyval \<Rightarrow> exn + pyval" where
  "py_setitem (VDict d) k v = Inr (VDict (AList.update k v d))"
| "py_setitem _ k v = Inl TypeError"

text \<open>The elements a \<^verbatim>\<open>for\<close> loop visits.\<close>

fun py_iter :: "pyval \<Rightarrow> exn + pyval list" where
  "py_iter (VList xs) = Inr xs"
| "py_iter (VDict d) = Inr (map (\<lambda>kv. VStr (fst kv)) d)"
| "py_iter (VStr s) = Inr (map (\<lambda>c. VStr [c]) s)"
| "py_iter _ = Inl TypeError"

text \<open>
  A \<^verbatim>\<open>datetime.date\<close> is its proleptic Gregorian ordinal, between
  \<^verbatim>\<open>date.min\<close> (ordinal 1) and \<^verbatim>\<open>date.max\<close> (ordinal 3652059); a
  \<^verbatim>\<open>datetime.datetime\<close> is a date with the microseconds since midnight.
  \<^verbatim>\<open>date - timedelta(days=n)\<close> raises \<^verbatim>\<open>OverflowError\<close> outside that range.
\<close>

type_synonym date = int
type_synonym datetime = "int \<times> nat"

definition date_of :: "datetime \<Rightarrow> date" where
  "date_of dt = fst dt"

definition date_minus_days :: "date \<Rightarrow> int \<Rightarrow> exn + date" where
  "date_minus_days d n =
     (if 1 \<le> d - n \<and> d - n \<le> 3652059 then Inr (d - n) else Inl OverflowError)"

datatype component = Sensor | Analyzer | Recommender | Intake | Security | UI

text \<open>
  Every method the orchestrator calls on a collaborator object, with its arguments.
  \<open>NotifyHealthcareProvider\<close> stands for the orchestrator's own method
  \<^verbatim>\<open>_notify_healthcare_provider\<close>, whose only effect is the outbound notice.
\<close>

datatype call =
    Start component
  | Stop component
  | RegisterUser component string pyval
  | EncryptUserData pyval
  | DecryptUserData pyval
  | ProcessData string pyval
  | Analyze string pyval
  | Recommend string pyval
  | UpdateSchedule string pyval
  | UpdateSupplementData string pyval
  | RecordIntake string string pyval
  | UpdateIntakeStatus string pyval
  | SendUrgentNotification string pyval
  | SendNotification string pyval
  | AddToHealthReport string pyval
  | NotifyHealthcareProvider string pyval
  | UpdateHealthData string pyval
  | GetHealthData string "(date \<times> date) option"
  | GetSchedule string
  | GetComplianceRate string "(date \<times> date) option"
  | GetIntakeHistory string date date
  | GetTrends string date date
  | UpdateUserSettings component string pyval

text \<open>
  The collaborators and the clock are not part of the module. A collaborator call
  returns a value or raises, and the answer may depend on every call made before it:
  \<open>respond env history c\<close>. The \<open>n\<close>-th reading of \<^verbatim>\<open>datetime.datetime.now()\<close>
  is \<open>clock env n\<close>; \<open>isoformat_dt\<close> and \<open>isoformat_d\<close> are the \<^verbatim>\<open>isoformat()\<close>
  methods of datetimes and dates.

  \<open>decrypt_shares env history c\<close> tells which object \<^verbatim>\<open>decrypt_user_data(c)\<close>
  returns: \<open>None\<close> when it is a new object, \<open>Some path\<close> when it is the very object
  found inside the ciphertext \<open>c\<close> under this path of dictionary keys (\<open>[]\<close> for the
  ciphertext object itself), as with a security component that wraps the data it is
  given and hands the same dictionary back.
\<close>

record env =
  respond :: "call list \<Rightarrow> call \<Rightarrow> exn + pyval"
  clock :: "nat \<Rightarrow> datetime"
  isoformat_dt :: "datetime \<Rightarrow> string"
  isoformat_d :: "date \<Rightarrow> string"
  decrypt_shares :: "call list \<Rightarrow> pyval \<Rightarrow> string list option"

section \<open>The state of a NutritionSystem\<close>

text \<open>
  \<open>is_running\<close> and \<open>active_users\<close> are the attributes of the object; a profile in
  \<open>active_users\<close> is the dictionary built by \<^verbatim>\<open>register_user\<close>. \<open>trace\<close> records
  the collaborator calls made so far, in order, and \<open>ticks\<close> counts the readings of
  the clock. Log output is not modelled.
\<close>

record system =
  is_running :: bool
  active_users :: "(string \<times> pydict) list"
  trace :: "call list"
  ticks :: nat

definition init :: system where
  "init = \<lparr>is_running = False, active_users = [], trace = [], ticks = 0\<rparr>"

type_synonym 'a prog = "system \<Rightarrow> (exn + 'a) \<times> system"

definition ret :: "'a \<Rightarrow> 'a prog" where
  "ret v = (\<lambda>s. (Inr v, s))"

definition lift :: "exn + 'a \<Rightarrow> 'a prog" where
  "lift r = (\<lambda>s. (r, s))"

text \<open>Sequencing: an exception ends the operation and keeps the state reached so far.\<close>

definition and_then :: "'a prog \<Rightarrow> ('a \<Rightarrow> 'b prog) \<Rightarrow> 'b prog" where
  "and_then m f = (\<lambda>s. case m s of (Inl e, s') \<Rightarrow> (Inl e, s') | (Inr v, s') \<Rightarrow> f v s')"

definition invoke :: "env \<Rightarrow> call \<Rightarrow> pyval prog" where
  "invoke env c = (\<lambda>s. (respond env (trace s) c, s\<lparr>trace := trace s @ [c]\<rparr>))"

definition now :: "env \<Rightarrow> datetime prog" where
  "now env = (\<lambda>s. (Inr (clock env (ticks s)), s\<lparr>ticks := Suc (ticks s)\<rparr>))"

text \<open>\<^verbatim>\<open>user_id in self.active_users\<close> and \<^verbatim>\<open>self.active_users[user_id]\<close>.\<close>

definition registered :: "system \<Rightarrow> string \<Rightarrow> bool" where
  "registered s user_id = (map_of (active_users s) user_id \<noteq> None)"

definition get_user :: "string \<Rightarrow> pydict prog" where
  "get_user user_id = (\<lambda>s. case map_of (active_users s) user_id of
       None \<Rightarrow> (Inl (KeyError user_id), s)
     | Some profile \<Rightarrow> (Inr profile, s))"

text \<open>\<^verbatim>\<open>self.active_users[user_id][key] = value\<close>.\<close>

definition set_user_field :: "string \<Rightarrow> string \<Rightarrow> pyval \<Rightarrow> unit prog" where
  "set_user_field user_id k v = (\<lambda>s. case map_of (active_users s) user_id of
       None \<Rightarrow> (Inl (KeyError user_id), s)
     | Some profile \<Rightarrow>
         (Inr (), s\<lparr>active_users := AList.update user_id (AList.update k v profile) (active_users s)\<rparr>))"

text \<open>
  \<^verbatim>\<open>self.active_users[user_id]["last_activity"] = datetime.datetime.now().isoformat()\<close>:
  the right-hand side is evaluated first.
\<close>

definition update_last_activity :: "env \<Rightarrow> string \<Rightarrow> unit prog" where
  "update_last_activity env user_id =
     and_then (now env) (\<lambda>t.
       set_user_field user_id ''last_activity'' (VStr (isoformat_dt env t)))"

definition not_registered :: pyval where
  "not_registered = VDict [(''status'', VStr ''error''), (''message'', VStr ''User not registered'')]"

section \<open>The operations of NutritionSystem\<close>

definition start :: "env \<Rightarrow> pyval prog" where
  "start env = (\<lambda>s.
     if is_running s then ret (VBool False) s
     else
       and_then (invoke env (Start Sensor)) (\<lambda>_.
       and_then (invoke env (Start Analyzer)) (\<lambda>_.
       and_then (invoke env (Start Recommender)) (\<lambda>_.
       and_then (invoke env (Start Intake)) (\<lambda>_.
       and_then (invoke env (Start Security)) (\<lambda>_.
       and_then (invoke env (Start UI)) (\<lambda>_.
       (\<lambda>s'. (Inr (VBool True), s'\<lparr>is_running := True\<rparr>)))))))) s)"

definition stop :: "env \<Rightarrow> pyval prog" where
  "stop env = (\<lambda>s.
     if \<not> is_running s then ret (VBool False) s
     else
       and_then (invoke env (Stop UI)) (\<lambda>_.
       and_then (invoke env (Stop Security)) (\<lambda>_.
       and_then (invoke env (Stop Intake)) (\<lambda>_.
       and_then (invoke env (Stop Recommender)) (\<lambda>_.
       and_then (invoke env (Stop Analyzer)) (\<lambda>_.
       and_then (invoke env (Stop Sensor)) (\<lambda>_.
       (\<lambda>s'. (Inr (VBool True), s'\<lparr>is_running := False\<rparr>)))))))) s)"

text \<open>
  \<^verbatim>\<open>register_user\<close>: the profile dictionary is a local value until the last
  statement stores it; an exception on the way discards it.
\<close>

definition register_user :: "env \<Rightarrow> string \<Rightarrow> pyval \<Rightarrow> pyval prog" where
  "register_user env user_id user_data = (\<lambda>s.
     if registered s user_id then ret (VBool False) s
     else
       and_then (invoke env (EncryptUserData user_data)) (\<lambda>encrypted_user_data.
       and_then (now env) (\<lambda>registered_at.
       and_then (now env) (\<lambda>last_activity.
       and_then (invoke env (RegisterUser Sensor user_id user_data)) (\<lambda>sensor.
       and_then (invoke env (RegisterUser Analyzer user_id user_data)) (\<lambda>analyzer.
       and_then (invoke env (RegisterUser Recommender user_id user_data)) (\<lambda>recommender.
       and_then (invoke env (RegisterUser Intake user_id user_data)) (\<lambda>intake_manager.
       and_then (invoke env (RegisterUser UI user_id user_data)) (\<lambda>ui.
       (\<lambda>s'. (Inr (VBool True),
          s'\<lparr>active_users := AList.update user_id
               [(''id'', VStr user_id),
                (''encrypted_data'', encrypted_user_data),
                (''registered_at'', VStr (isoformat_dt env registered_at)),
                (''last_activity'', VStr (isoformat_dt env last_activity)),
                (''components'', VDict
                   [(''sensor'', sensor),
                    (''analyzer'', analyzer),
                    (''recommender'', recommender),
                    (''intake_manager'', intake_manager),
                    (''ui'', ui)])]
               (active_users s')\<rparr>)))))))))) s)"

definition update_recommendations :: "env \<Rightarrow> string \<Rightarrow> pyval \<Rightarrow> pyval prog" where
  "update_recommendations env user_id analysis_result = (\<lambda>s.
     if \<not> registered s user_id then ret not_registered s
     else
       and_then (invoke env (Recommend user_id analysis_result)) (\<lambda>recommendations.
       and_then (invoke env (UpdateSchedule user_id recommendations)) (\<lambda>_.
       and_then (invoke env (UpdateSupplementData user_id recommendations)) (\<lambda>_.
       ret (VDict [(''status'', VStr ''success''), (''recommendations'', recommendations)])))) s)"

definition notify_healthcare_provider :: "env \<Rightarrow> string \<Rightarrow> pyval \<Rightarrow> pyval prog" where
  "notify_healthcare_provider env user_id alert =
     (\<lambda>s. (Inr VNone, s\<lparr>trace := trace s @ [NotifyHealthcareProvider user_id alert]\<rparr>))"

text \<open>
  \<^verbatim>\<open>handle_health_alert\<close>. The first \<open>py_get\<close> is the \<^verbatim>\<open>alert.get('message')\<close> of
  the log line, which already needs \<open>alert\<close> to be a dictionary.
\<close>

definition handle_health_alert :: "env \<Rightarrow> string \<Rightarrow> pyval \<Rightarrow> pyval prog" where
  "handle_health_alert env user_id alert =
     and_then (lift (py_get alert ''message'' VNone)) (\<lambda>_.
     and_then (lift (py_get alert ''severity'' (VStr ''medium''))) (\<lambda>severity.
     and_then
       (if severity = VStr ''high'' then
          and_then (invoke env (SendUrgentNotification user_id alert)) (\<lambda>_.
          and_then (get_user user_id) (\<lambda>profile.
            if py_truthy (dict_get profile ''notify_healthcare_provider'' (VBool False))
            then notify_healthcare_provider env user_id alert
            else ret VNone))
        else if severity = VStr ''medium'' then
          invoke env (SendNotification user_id alert)
        else
          invoke env (AddToHealthReport user_id alert)) (\<lambda>_.
     ret (VDict [(''status'', VStr ''success''), (''alert_handled'', VBool True)]))))"

text \<open>The body of \<^verbatim>\<open>for alert in alerts: self.handle_health_alert(user_id, alert)\<close>.\<close>

fun for_each :: "(pyval \<Rightarrow> pyval prog) \<Rightarrow> pyval list \<Rightarrow> unit prog" where
  "for_each f [] = ret ()"
| "for_each f (x # xs) = and_then (f x) (\<lambda>_. for_each f xs)"

definition process_sensor_data :: "env \<Rightarrow> string \<Rightarrow> pyval \<Rightarrow> pyval prog" where
  "process_sensor_data env user_id sensor_data = (\<lambda>s.
     if \<not> registered s user_id then ret not_registered s
     else
       and_then (update_last_activity env user_id) (\<lambda>_.
       and_then (invoke env (ProcessData user_id sensor_data)) (\<lambda>validated_data.
       and_then (invoke env (Analyze user_id validated_data)) (\<lambda>analysis_result.
       and_then (lift (py_get analysis_result ''update_recommendation'' (VBool False))) (\<lambda>upd.
       and_then
         (if py_truthy upd then update_recommendations env user_id analysis_result
          else ret VNone) (\<lambda>_.
       and_then (lift (py_get analysis_result ''alerts'' (VList []))) (\<lambda>alerts.
       and_then (lift (py_iter alerts)) (\<lambda>alert_list.
       and_then (for_each (handle_health_alert env user_id) alert_list) (\<lambda>_.
       and_then (invoke env (UpdateHealthData user_id analysis_result)) (\<lambda>_.
       ret (VDict [(''status'', VStr ''success''), (''result'', analysis_result)])))))))))) s)"

definition record_supplement_intake :: "env \<Rightarrow> string \<Rightarrow> string \<Rightarrow> pyval \<Rightarrow> pyval prog" where
  "record_supplement_intake env user_id supplement_id intake_time = (\<lambda>s.
     if \<not> registered s user_id then ret not_registered s
     else
       and_then (update_last_activity env user_id) (\<lambda>_.
       and_then (invoke env (RecordIntake user_id supplement_id intake_time)) (\<lambda>result.
       and_then (invoke env (UpdateIntakeStatus user_id result)) (\<lambda>_.
       ret (VDict [(''status'', VStr ''success''), (''result'', result)])))) s)"

definition get_user_dashboard :: "env \<Rightarrow> string \<Rightarrow> pyval prog" where
  "get_user_dashboard env user_id = (\<lambda>s.
     if \<not> registered s user_id then ret not_registered s
     else
       and_then (update_last_activity env user_id) (\<lambda>_.
       and_then (invoke env (GetHealthData user_id None)) (\<lambda>health_data.
       and_then (invoke env (GetSchedule user_id)) (\<lambda>supplement_data.
       and_then (invoke env (GetComplianceRate user_id None)) (\<lambda>compliance_data.
       ret (VDict [(''status'', VStr ''success''),
                   (''dashboard'', VDict
                      [(''health_data'', health_data),
                       (''supplement_data'', supplement_data),
                       (''compliance_data'', compliance_data)])]))))) s)"

text \<open>
  \<^verbatim>\<open>get_health_report\<close>: the window is computed from a second reading of the clock,
  \<^verbatim>\<open>generated_at\<close> from a third.
\<close>

definition get_health_report :: "env \<Rightarrow> string \<Rightarrow> string \<Rightarrow> pyval prog" where
  "get_health_report env user_id report_type = (\<lambda>s.
     if \<not> registered s user_id then ret not_registered s
     else
       and_then (update_last_activity env user_id) (\<lambda>_.
       and_then (now env) (\<lambda>t.
       let end_date = date_of t;
           window =
            (if report_type = ''daily'' then Some (Inr end_date)
             else if report_type = ''weekly'' then Some (date_minus_days end_date 7)
             else if report_type = ''monthly'' then Some (date_minus_days end_date 30)
             else None)
       in case window of
            None \<Rightarrow>
              ret (VDict [(''status'', VStr ''error''),
                          (''message'', VStr (''Invalid report type: '' @ report_type))])
          | Some w \<Rightarrow>
              and_then (lift w) (\<lambda>start_date.
              and_then (invoke env (GetHealthData user_id (Some (start_date, end_date)))) (\<lambda>health_data.
              and_then (invoke env (GetIntakeHistory user_id start_date end_date)) (\<lambda>supplement_data.
              and_then (invoke env (GetComplianceRate user_id (Some (start_date, end_date)))) (\<lambda>compliance_data.
              and_then (invoke env (GetTrends user_id start_date end_date)) (\<lambda>trends.
              and_then (now env) (\<lambda>generated_at.
              ret (VDict [(''status'', VStr ''success''),
                          (''report'', VDict
                             [(''user_id'', VStr user_id),
                              (''report_type'', VStr report_type),
                              (''start_date'', VStr (isoformat_d env start_date)),
                              (''end_date'', VStr (isoformat_d env end_date)),
                              (''generated_at'', VStr (isoformat_dt env generated_at)),
                              (''health_data'', health_data),
                              (''supplement_data'', supplement_data),
                              (''compliance_data'', compliance_data),
                              (''trends'', trends)])]))))))))) s)"

text \<open>
  \<^verbatim>\<open>self.data_security.decrypt_user_data(c)\<close>: the call, with the value returned and
  the sharing of the object returned.
\<close>

definition decrypt_user_data :: "env \<Rightarrow> pyval \<Rightarrow> (pyval \<times> string list option) prog" where
  "decrypt_user_data env c = (\<lambda>s.
     (case respond env (trace s) (DecryptUserData c) of
        Inl e \<Rightarrow> Inl e
      | Inr v \<Rightarrow> Inr (v, decrypt_shares env (trace s) c),
      s\<lparr>trace := trace s @ [DecryptUserData c]\<rparr>))"

text \<open>
  In-place mutation. \<open>replace_at path old new c\<close> is the ciphertext \<open>c\<close> after the
  object under \<open>path\<close>, whose content was \<open>old\<close>, has been mutated to \<open>new\<close>.
  \<open>write_through\<close> does this to the ciphertext stored for the user when the mutated
  object is shared with it; \<open>del_in_place\<close> and \<open>set_in_place\<close> are
  \<^verbatim>\<open>del obj[key]\<close> and \<^verbatim>\<open>obj[key] = value\<close> on such an object.
\<close>

fun replace_at :: "string list \<Rightarrow> pyval \<Rightarrow> pyval \<Rightarrow> pyval \<Rightarrow> pyval" where
  "replace_at [] old new c = (if c = old then new else c)"
| "replace_at (k # ks) old new (VDict d) =
     (case map_of d k of
        None \<Rightarrow> VDict d
      | Some v \<Rightarrow> VDict (AList.update k (replace_at ks old new v) d))"
| "replace_at (k # ks) old new c = c"

definition write_through :: "string \<Rightarrow> string list option \<Rightarrow> pyval \<Rightarrow> pyval \<Rightarrow> unit prog" where
  "write_through user_id shared old new = (\<lambda>s.
     case shared of
       None \<Rightarrow> (Inr (), s)
     | Some path \<Rightarrow>
         (case map_of (active_users s) user_id of
            None \<Rightarrow> (Inr (), s)
          | Some profile \<Rightarrow>
              (case map_of profile ''encrypted_data'' of
                 None \<Rightarrow> (Inr (), s)
               | Some c \<Rightarrow>
                   (Inr (),
                    s\<lparr>active_users := AList.update user_id
                        (AList.update ''encrypted_data'' (replace_at path old new c) profile)
                        (active_users s)\<rparr>))))"

definition del_in_place :: "string \<Rightarrow> string list option \<Rightarrow> pyval \<Rightarrow> string \<Rightarrow> pyval prog" where
  "del_in_place user_id shared obj k =
     and_then (lift (py_delitem obj k)) (\<lambda>obj'.
     and_then (write_through user_id shared obj obj') (\<lambda>_.
     ret obj'))"

definition set_in_place ::
  "string \<Rightarrow> string list option \<Rightarrow> pyval \<Rightarrow> string \<Rightarrow> pyval \<Rightarrow> pyval prog" where
  "set_in_place user_id shared obj k v =
     and_then (lift (py_setitem obj k v)) (\<lambda>obj'.
     and_then (write_through user_id shared obj obj') (\<lambda>_.
     ret obj'))"

text \<open>
  \<^verbatim>\<open>get_user_profile\<close>: \<open>user_data\<close>, \<open>user_data1\<close>, \<open>user_data2\<close> and
  \<open>user_data3\<close> are the successive contents of the one dictionary \<^verbatim>\<open>user_data\<close>.
\<close>

definition get_user_profile :: "env \<Rightarrow> string \<Rightarrow> pyval prog" where
  "get_user_profile env user_id = (\<lambda>s.
     if \<not> registered s user_id then ret not_registered s
     else
       and_then (update_last_activity env user_id) (\<lambda>_.
       and_then (get_user user_id) (\<lambda>profile.
       and_then (lift (dict_item profile ''encrypted_data'')) (\<lambda>encrypted_user_data.
       and_then (decrypt_user_data env encrypted_user_data) (\<lambda>(user_data, shared).
       and_then (lift (py_contains ''password'' user_data)) (\<lambda>has_password.
       and_then
         (if has_password then del_in_place user_id shared user_data ''password''
          else ret user_data) (\<lambda>user_data1.
       and_then (lift (dict_item profile ''registered_at'')) (\<lambda>registered_at.
       and_then (set_in_place user_id shared user_data1 ''registered_at'' registered_at) (\<lambda>user_data2.
       and_then (lift (dict_item profile ''last_activity'')) (\<lambda>last_activity.
       and_then (set_in_place user_id shared user_data2 ''last_activity'' last_activity) (\<lambda>user_data3.
       ret (VDict [(''status'', VStr ''success''), (''profile'', user_data3)]))))))))))) s)"

text \<open>\<^verbatim>\<open>for key, value in update_data.items(): user_data[key] = value\<close>.\<close>

fun set_items :: "string \<Rightarrow> string list option \<Rightarrow> pyval \<Rightarrow> pydict \<Rightarrow> pyval prog" where
  "set_items user_id shared user_data [] = ret user_data"
| "set_items user_id shared user_data ((k, v) # kvs) =
     and_then (set_in_place user_id shared user_data k v) (\<lambda>user_data'.
     set_items user_id shared user_data' kvs)"

text \<open>
  \<^verbatim>\<open>if update_data.get(flag, False): collaborator.update_user_settings(user_id, update_data)\<close>.
\<close>

definition forward_settings :: "env \<Rightarrow> string \<Rightarrow> component \<Rightarrow> string \<Rightarrow> pydict \<Rightarrow> pyval prog" where
  "forward_settings env flag c user_id update_data =
     (if py_truthy (dict_get update_data flag (VBool False))
      then invoke env (UpdateUserSettings c user_id (VDict update_data))
      else ret VNone)"

definition update_user_profile :: "env \<Rightarrow> string \<Rightarrow> pydict \<Rightarrow> pyval prog" where
  "update_user_profile env user_id update_data = (\<lambda>s.
     if \<not> registered s user_id then ret not_registered s
     else
       and_then (update_last_activity env user_id) (\<lambda>_.
       and_then (get_user user_id) (\<lambda>profile.
       and_then (lift (dict_item profile ''encrypted_data'')) (\<lambda>encrypted_user_data.
       and_then (decrypt_user_data env encrypted_user_data) (\<lambda>(user_data, shared).
       and_then (set_items user_id shared user_data update_data) (\<lambda>user_data'.
       and_then (invoke env (EncryptUserData user_data')) (\<lambda>updated_encrypted_data.
       and_then (set_user_field user_id ''encrypted_data'' updated_encrypted_data) (\<lambda>_.
       and_then (forward_settings env ''update_sensor_settings'' Sensor user_id update_data) (\<lambda>_.
       and_then (forward_settings env ''update_analysis_settings'' Analyzer user_id update_data) (\<lambda>_.
       and_then (forward_settings env ''update_recommendation_settings'' Recommender user_id update_data) (\<lambda>_.
       and_then (forward_settings env ''update_intake_settings'' Intake user_id update_data) (\<lambda>_.
       and_then (forward_settings env ''update_ui_settings'' UI user_id update_data) (\<lambda>_.
       ret (VDict [(''status'', VStr ''success''),
                   (''message'', VStr ''Profile updated successfully'')]))))))))))))) s)"

section \<open>Sequences of collaborator calls\<close>

text \<open>
  \<open>all_return env h cs\<close>: every call of \<open>cs\<close>, made in this order after the history
  \<open>h\<close>, returns a value (none raises).
\<close>

fun all_return :: "env \<Rightarrow> call list \<Rightarrow> call list \<Rightarrow> bool" where
  "all_return env h [] = True"
| "all_return env h (c # cs) =
     (case respond env h c of Inl e \<Rightarrow> False | Inr v \<Rightarrow> all_return env (h @ [c]) cs)"

definition start_order :: "call list" where
  "start_order =
     [Start Sensor, Start Analyzer, Start Recommender, Start Intake, Start Security, Start UI]"

definition stop_order :: "call list" where
  "stop_order =
     [Stop UI, Stop Security, Stop Intake, Stop Recommender, Stop Analyzer, Stop Sensor]"

definition register_order :: "string \<Rightarrow> pyval \<Rightarrow> call list" where
  "register_order user_id user_data =
     [EncryptUserData user_data,
      RegisterUser Sensor user_id user_data,
      RegisterUser Analyzer user_id user_data,
      RegisterUser Recommender user_id user_data,
      RegisterUser Intake user_id user_data,
      RegisterUser UI user_id user_data]"

definition report_calls :: "string \<Rightarrow> date \<Rightarrow> date \<Rightarrow> call list" where
  "report_calls user_id start_date end_date =
     [GetHealthData user_id (Some (start_date, end_date)),
      GetIntakeHistory user_id start_date end_date,
      GetComplianceRate user_id (Some (start_date, end_date)),
      GetTrends user_id start_date end_date]"

section \<open>A concrete environment\<close>

text \<open>
  The calendar of CPython's \<^verbatim>\<open>datetime\<close>: year, month and day of an ordinal, and
  the two \<^verbatim>\<open>isoformat()\<close> renderings.
\<close>

definition days_before_month :: "nat \<Rightarrow> nat" where
  "days_before_month m = [0, 0, 31, 59, 90, 120, 151, 181, 212, 243, 273, 304, 334] ! m"

definition days_in_month :: "nat \<Rightarrow> nat" where
  "days_in_month m = [0, 31, 28, 31, 30, 31, 30, 31, 31, 30, 31, 30, 31] ! m"

definition ord2ymd :: "date \<Rightarrow> nat \<times> nat \<times> nat" where
  "ord2ymd ordinal =
     (let n0 = nat (ordinal - 1);
          n400 = n0 div 146097; n1 = n0 mod 146097;
          n100 = n1 div 36524; n2 = n1 mod 36524;
          n4 = n2 div 1461; n3 = n2 mod 1461;
          n1y = n3 div 365; n = n3 mod 365;
          year = n400 * 400 + 1 + n100 * 100 + n4 * 4 + n1y
      in if n1y = 4 \<or> n100 = 4 then (year - 1, 12, 31)
         else
           let leapyear = (n1y = 3 \<and> (n4 \<noteq> 24 \<or> n100 = 3));
               month = (n + 50) div 32;
               preceding = days_before_month month + (if month > 2 \<and> leapyear then 1 else 0)
           in if preceding > n
              then (year, month - 1,
                    n - (preceding - (days_in_month (month - 1)
                                      + (if month - 1 = 2 \<and> leapyear then 1 else 0))) + 1)
              else (year, month, n - preceding + 1))"

fun zero_pad :: "nat \<Rightarrow> nat \<Rightarrow> string" where
  "zero_pad 0 n = []"
| "zero_pad (Suc w) n = zero_pad w (n div 10) @ [''0123456789'' ! (n mod 10)]"

definition date_isoformat :: "date \<Rightarrow> string" where
  "date_isoformat d =
     (case ord2ymd d of (y, m, dd) \<Rightarrow> zero_pad 4 y @ ''-'' @ zero_pad 2 m @ ''-'' @ zero_pad 2 dd)"

definition datetime_isoformat :: "datetime \<Rightarrow> string" where
  "datetime_isoformat dt =
     (let us = snd dt; secs = us div 1000000; frac = us mod 1000000
      in date_isoformat (fst dt) @ ''T'' @ zero_pad 2 (secs div 3600) @ '':''
         @ zero_pad 2 (secs div 60 mod 60) @ '':'' @ zero_pad 2 (secs mod 60)
         @ (if frac = 0 then [] else ''.'' @ zero_pad 6 frac))"

text \<open>
  Collaborators that always answer: the security component wraps the payload and
  unwraps it into a new dictionary, every registration returns \<^verbatim>\<open>True\<close>, the analyzer asks for new
  recommendations and reports one alert of severity high, every other call returns
  \<^verbatim>\<open>None\<close>. The clock starts at noon of 2024-06-10 and advances by a microsecond
  at every reading.
\<close>

definition demo_alert :: pyval where
  "demo_alert = VDict [(''message'', VStr ''iron is low''), (''severity'', VStr ''high'')]"

definition demo_respond :: "call list \<Rightarrow> call \<Rightarrow> exn + pyval" where
  "demo_respond h c =
     (case c of
        EncryptUserData v \<Rightarrow> Inr (VDict [(''ciphertext'', v)])
      | DecryptUserData v \<Rightarrow>
          (case v of VDict d \<Rightarrow> dict_item d ''ciphertext''
                   | _ \<Rightarrow> Inl (CollaboratorError ''not a ciphertext''))
      | RegisterUser who u d \<Rightarrow> Inr (VBool True)
      | Analyze u d \<Rightarrow>
          Inr (VDict [(''update_recommendation'', VBool True), (''alerts'', VList [demo_alert])])
      | _ \<Rightarrow> Inr VNone)"

definition demo_env :: env where
  "demo_env =
     \<lparr>respond = demo_respond,
      clock = (\<lambda>n. (739047, 43200000000 + n)),
      isoformat_dt = datetime_isoformat,
      isoformat_d = date_isoformat,
      decrypt_shares = (\<lambda>h c. None)\<rparr>"

text \<open>
  The same collaborators, except that the security component keeps no copy: it wraps
  the dictionary it is given and, to decrypt, hands that same dictionary back.
\<close>

definition sharing_security :: env where
  "sharing_security = demo_env\<lparr>decrypt_shares := (\<lambda>h c. Some [''ciphertext''])\<rparr>"

text \<open>The same collaborators, except that the recommender refuses every registration.\<close>

definition recommender_down :: env where
  "recommender_down =
     demo_env\<lparr>respond := (\<lambda>h c.
        case c of
          RegisterUser who u d \<Rightarrow>
            (if who = Recommender then Inl (CollaboratorError ''recommender unavailable'')
             else demo_respond h c)
        | _ \<Rightarrow> demo_respond h c)\<rparr>"

text \<open>The registration data of the module's own example, with a password added.\<close>

definition demo_user_data :: pyval where
  "demo_user_data =
     VDict [(''name'', VStr ''John Doe''),
            (''email'', VStr ''john.doe@example.com''),
            (''password'', VStr ''secret''),
            (''age'', VInt 35),
            (''notify_healthcare_provider'', VBool True)]"

text \<open>The state after the example user has registered with these collaborators.\<close>

definition demo_state :: system where
  "demo_state = snd (register_user demo_env ''user123'' demo_user_data init)"

definition demo_profile :: pydict where
  "demo_profile =
     [(''id'', VStr ''user123''),
      (''encrypted_data'', VDict [(''ciphertext'', demo_user_data)]),
      (''registered_at'', VStr ''2024-06-10T12:00:00''),
      (''last_activity'', VStr ''2024-06-10T12:00:00.000001''),
      (''components'', VDict
         [(''sensor'', VBool True), (''analyzer'', VBool True), (''recommender'', VBool True),
          (''intake_manager'', VBool True), (''ui'', VBool True)])]"

definition alert_handled :: pyval where
  "alert_handled = VDict [(''status'', VStr ''success''), (''alert_handled'', VBool True)]"

definition standard_notification_only :: "env \<Rightarrow> string \<Rightarrow> pyval \<Rightarrow> system \<Rightarrow> bool" where
  "standard_notification_only env user_id alert s =
     (snd (handle_health_alert env user_id alert s) =
        s\<lparr>trace := trace s @ [SendNotification user_id alert]\<rparr>)"

definition report_append_only :: "env \<Rightarrow> string \<Rightarrow> pyval \<Rightarrow> system \<Rightarrow> bool" where
  "report_append_only env user_id alert s =
     (snd (handle_health_alert env user_id alert s) =
        s\<lparr>trace := trace s @ [AddToHealthReport user_id alert]\<rparr>)"

definition unknown_alert :: pyval where
  "unknown_alert = VDict [(''message'', VStr ''iron is low''), (''severity'', VStr ''critical'')]"

text \<open>
  The state after
  \<^verbatim>\<open>self.active_users[user_id]["last_activity"] = datetime.datetime.now().isoformat()\<close>
  and the \<^verbatim>\<open>last_activity\<close> entry of a user's profile.
\<close>

definition touched :: "env \<Rightarrow> string \<Rightarrow> system \<Rightarrow> system" where
  "touched env user_id s =
     (case map_of (active_users s) user_id of
        None \<Rightarrow> s\<lparr>ticks := Suc (ticks s)\<rparr>
      | Some profile \<Rightarrow>
          s\<lparr>ticks := Suc (ticks s),
            active_users := AList.update user_id
              (AList.update ''last_activity'' (VStr (isoformat_dt env (clock env (ticks s)))) profile)
              (active_users s)\<rparr>)"

definition last_activity_of :: "system \<Rightarrow> string \<Rightarrow> pyval option" where
  "last_activity_of s user_id =
     (case map_of (active_users s) user_id of
        None \<Rightarrow> None
      | Some profile \<Rightarrow> map_of profile ''last_activity'')"

text \<open>The collaborator calls made between two states.\<close>

definition new_calls :: "system \<Rightarrow> system \<Rightarrow> call list" where
  "new_calls s s' = drop (length (trace s)) (trace s')"

text \<open>
  The date \<^verbatim>\<open>get_health_report\<close> takes as \<^verbatim>\<open>end_date\<close>: the date of the second
  reading of the clock in the call. \<open>report_field\<close> reads an entry of the report in a
  result.
\<close>

definition today :: "env \<Rightarrow> system \<Rightarrow> date" where
  "today env s = date_of (clock env (Suc (ticks s)))"

definition valid_date :: "date \<Rightarrow> bool" where
  "valid_date d = (1 \<le> d \<and> d \<le> 3652059)"

definition report_field :: "exn + pyval \<Rightarrow> string \<Rightarrow> pyval option" where
  "report_field r k =
     (case r of
        Inr (VDict d) \<Rightarrow>
          (case map_of d ''report'' of Some (VDict rep) \<Rightarrow> map_of rep k | _ \<Rightarrow> None)
      | _ \<Rightarrow> None)"

text \<open>
  \<open>report_window\<close>: the report is fetched for the window from \<open>start_date\<close> to
  \<open>end_date\<close>. The collaborator calls of the operation are the four calls for that
  window, up to the first one that raises; when all four return, the report names the
  two dates.
\<close>

definition report_window :: "env \<Rightarrow> string \<Rightarrow> string \<Rightarrow> system \<Rightarrow> date \<Rightarrow> date \<Rightarrow> bool" where
  "report_window env user_id report_type s start_date end_date =
     (case get_health_report env user_id report_type s of
        (r, s') \<Rightarrow>
          trace s' = trace s @ new_calls s s' \<and>
          new_calls s s' \<noteq> [] \<and>
          prefix (new_calls s s') (report_calls user_id start_date end_date) \<and>
          (all_return env (trace s) (report_calls user_id start_date end_date) \<longrightarrow>
             new_calls s s' = report_calls user_id start_date end_date \<and>
             report_field r ''start_date'' = Some (VStr (isoformat_d env start_date)) \<and>
             report_field r ''end_date'' = Some (VStr (isoformat_d env end_date))))"

definition invalid_report_type :: "env \<Rightarrow> string \<Rightarrow> string \<Rightarrow> system \<Rightarrow> bool" where
  "invalid_report_type env user_id report_type s =
     (case get_health_report env user_id report_type s of
        (r, s') \<Rightarrow>
          r = Inr (VDict [(''status'', VStr ''error''),
                          (''message'', VStr (''Invalid report type: '' @ report_type))]) \<and>
          trace s' = trace s)"

text \<open>The part of \<^verbatim>\<open>get_health_report\<close> that follows the computation of the window.\<close>

definition fetch_report :: "env \<Rightarrow> string \<Rightarrow> string \<Rightarrow> date \<Rightarrow> date \<Rightarrow> pyval prog" where
  "fetch_report env user_id report_type start_date end_date =
     and_then (invoke env (GetHealthData user_id (Some (start_date, end_date)))) (\<lambda>health_data.
     and_then (invoke env (GetIntakeHistory user_id start_date end_date)) (\<lambda>supplement_data.
     and_then (invoke env (GetComplianceRate user_id (Some (start_date, end_date)))) (\<lambda>compliance_data.
     and_then (invoke env (GetTrends user_id start_date end_date)) (\<lambda>trends.
     and_then (now env) (\<lambda>generated_at.
     ret (VDict [(''status'', VStr ''success''),
                 (''report'', VDict
                    [(''user_id'', VStr user_id),
                     (''report_type'', VStr report_type),
                     (''start_date'', VStr (isoformat_d env start_date)),
                     (''end_date'', VStr (isoformat_d env end_date)),
                     (''generated_at'', VStr (isoformat_dt env generated_at)),
                     (''health_data'', health_data),
                     (''supplement_data'', supplement_data),
                     (''compliance_data'', compliance_data),
                     (''trends'', trends)])]))))))"

text \<open>The ciphertext stored for a user, and the profile a result of \<^verbatim>\<open>get_user_profile\<close> carries.\<close>

definition stored_payload :: "system \<Rightarrow> string \<Rightarrow> pyval option" where
  "stored_payload s user_id =
     (case map_of (active_users s) user_id of
        None \<Rightarrow> None
      | Some profile \<Rightarrow> map_of profile ''encrypted_data'')"

definition returned_profile :: "exn + pyval \<Rightarrow> pyval option" where
  "returned_profile r = (case r of Inr (VDict d) \<Rightarrow> map_of d ''profile'' | _ \<Rightarrow> None)"

definition has_no_password :: "exn + pyval \<Rightarrow> bool" where
  "has_no_password r =
     (case returned_profile r of
        Some (VDict d) \<Rightarrow> map_of d ''password'' = None
      | _ \<Rightarrow> False)"

text \<open>
  The contract of the security component that makes re-encryption a round trip:
  whatever it returns as the encryption of a value decrypts to that value.
\<close>

definition roundtrip :: "env \<Rightarrow> bool" where
  "roundtrip env =
     (\<forall>h h' x c. respond env h (EncryptUserData x) = Inr c \<longrightarrow>
                 respond env h' (DecryptUserData c) = Inr x)"

text \<open>
  The part of \<^verbatim>\<open>get_user_profile\<close> between the decryption and the \<^verbatim>\<open>return\<close>,
  which touches no state: the password is removed and the two timestamps of the
  registry profile are added.
\<close>

definition profile_view :: "pydict \<Rightarrow> pyval \<Rightarrow> exn + pyval" where
  "profile_view profile user_data =
     (case py_contains ''password'' user_data of
        Inl e \<Rightarrow> Inl e
      | Inr has_password \<Rightarrow>
     (case (if has_password then py_delitem user_data ''password'' else Inr user_data) of
        Inl e \<Rightarrow> Inl e
      | Inr user_data1 \<Rightarrow>
     (case dict_item profile ''registered_at'' of
        Inl e \<Rightarrow> Inl e
      | Inr registered_at \<Rightarrow>
     (case py_setitem user_data1 ''registered_at'' registered_at of
        Inl e \<Rightarrow> Inl e
      | Inr user_data2 \<Rightarrow>
     (case dict_item profile ''last_activity'' of
        Inl e \<Rightarrow> Inl e
      | Inr last_activity \<Rightarrow> py_setitem user_data2 ''last_activity'' last_activity)))))"

text \<open>
  The collaborator object that receives a call (none for the orchestrator's own
  \<^verbatim>\<open>_notify_healthcare_provider\<close>), and the calls made after a given call.
  \<open>asked_after cs failed c\<close>: after the call \<open>failed\<close>, the collaborator \<open>c\<close> is asked
  for something - as it would be if it were asked to deregister a user.
\<close>

fun addressee :: "call \<Rightarrow> component option" where
  "addressee (Start c) = Some c"
| "addressee (Stop c) = Some c"
| "addressee (RegisterUser c u d) = Some c"
| "addressee (EncryptUserData d) = Some Security"
| "addressee (DecryptUserData d) = Some Security"
| "addressee (ProcessData u d) = Some Sensor"
| "addressee (Analyze u d) = Some Analyzer"
| "addressee (Recommend u d) = Some Recommender"
| "addressee (UpdateSchedule u d) = Some Intake"
| "addressee (UpdateSupplementData u d) = Some UI"
| "addressee (RecordIntake u i t) = Some Intake"
| "addressee (UpdateIntakeStatus u d) = Some UI"
| "addressee (SendUrgentNotification u d) = Some UI"
| "addressee (SendNotification u d) = Some UI"
| "addressee (AddToHealthReport u d) = Some UI"
| "addressee (NotifyHealthcareProvider u d) = None"
| "addressee (UpdateHealthData u d) = Some UI"
| "addressee (GetHealthData u w) = Some Analyzer"
| "addressee (GetSchedule u) = Some Intake"
| "addressee (GetComplianceRate u w) = Some Intake"
| "addressee (GetIntakeHistory u a b) = Some Intake"
| "addressee (GetTrends u a b) = Some Analyzer"
| "addressee (UpdateUserSettings c u d) = Some c"

definition calls_after :: "call \<Rightarrow> call list \<Rightarrow> call list" where
  "calls_after failed cs = tl (dropWhile (\<lambda>x. x \<noteq> failed) cs)"

definition asked_after :: "call list \<Rightarrow> call \<Rightarrow> component \<Rightarrow> bool" where
  "asked_after cs failed c = (Some c \<in> set (map addressee (calls_after failed cs)))"

text \<open>
  The outcome of \<^verbatim>\<open>register_user\<close> a caller can see when a call raised: the
  exception is the one raised by the last call made, and every call before it returned.
\<close>

definition raised_by_last_call :: "env \<Rightarrow> call list \<Rightarrow> call list \<Rightarrow> exn + pyval \<Rightarrow> bool" where
  "raised_by_last_call env h cs r =
     (cs \<noteq> [] \<and> all_return env h (butlast cs) \<and>
      (case r of Inl e \<Rightarrow> respond env (h @ butlast cs) (last cs) = Inl e | Inr v \<Rightarrow> False))"

text \<open>
  \<open>preserves P m\<close>: the step \<open>m\<close> keeps the property \<open>P\<close> of the state, whether it
  returns or raises.
\<close>

definition preserves :: "(system \<Rightarrow> bool) \<Rightarrow> 'a prog \<Rightarrow> bool" where
  "preserves P m = (\<forall>s. P s \<longrightarrow> P (snd (m s)))"

text \<open>
  The states a caller can produce with the methods of the class, starting from a new
  object, with arbitrary arguments.
\<close>

inductive reachable :: "env \<Rightarrow> system \<Rightarrow> bool" for env :: env where
  reach_init: "reachable env init"
| reach_start: "reachable env s \<Longrightarrow> reachable env (snd (start env s))"
| reach_stop: "reachable env s \<Longrightarrow> reachable env (snd (stop env s))"
| reach_register_user:
    "reachable env s \<Longrightarrow> reachable env (snd (register_user env user_id user_data s))"
| reach_process_sensor_data:
    "reachable env s \<Longrightarrow> reachable env (snd (process_sensor_data env user_id sensor_data s))"
| reach_update_recommendations:
    "reachable env s \<Longrightarrow> reachable env (snd (update_recommendations env user_id analysis_result s))"
| reach_record_supplement_intake:
    "reachable env s \<Longrightarrow>
     reachable env (snd (record_supplement_intake env user_id supplement_id intake_time s))"
| reach_handle_health_alert:
    "reachable env s \<Longrightarrow> reachable env (snd (handle_health_alert env user_id alert s))"
| reach_get_user_dashboard:
    "reachable env s \<Longrightarrow> reachable env (snd (get_user_dashboard env user_id s))"
| reach_get_health_report:
    "reachable env s \<Longrightarrow> reachable env (snd (get_health_report env user_id report_type s))"
| reach_get_user_profile:
    "reachable env s \<Longrightarrow> reachable env (snd (get_user_profile env user_id s))"
| reach_update_user_profile:
    "reachable env s \<Longrightarrow> reachable env (snd (update_user_profile env user_id update_data s))"

text \<open>
  No profile of the registry has the key \<^verbatim>\<open>notify_healthcare_provider\<close>, and the
  healthcare provider has not been notified.
\<close>

definition provider_silent :: "system \<Rightarrow> bool" where
  "provider_silent s =
     ((\<forall>u profile. map_of (active_users s) u = Some profile \<longrightarrow>
          map_of profile ''notify_healthcare_provider'' = None) \<and>
      (\<forall>u alert. NotifyHealthcareProvider u alert \<notin> set (trace s)))"

section \<open>Evaluation rules\<close>

lemma and_then_ret [simp]: "and_then (ret v) f s = f v s"
  by (simp add: and_then_def ret_def)

lemma and_then_lift [simp]:
  "and_then (lift r) f s = (case r of Inl e \<Rightarrow> (Inl e, s) | Inr v \<Rightarrow> f v s)"
  by (simp add: and_then_def lift_def split: sum.splits)

lemma and_then_invoke [simp]:
  "and_then (invoke env c) f s =
     (case respond env (trace s) c of
        Inl e \<Rightarrow> (Inl e, s\<lparr>trace := trace s @ [c]\<rparr>)
      | Inr v \<Rightarrow> f v (s\<lparr>trace := trace s @ [c]\<rparr>))"
  by (simp add: and_then_def invoke_def split: sum.splits)

lemma and_then_now [simp]:
  "and_then (now env) f s = f (clock env (ticks s)) (s\<lparr>ticks := Suc (ticks s)\<rparr>)"
  by (simp add: and_then_def now_def)

lemma zero_pad_numeral:
  "zero_pad (numeral k) n = zero_pad (pred_numeral k) (n div 10) @ [''0123456789'' ! (n mod 10)]"
  using zero_pad.simps(2)[of "pred_numeral k" n] by (simp only: numeral_eq_Suc[symmetric])

lemma zero_pad_1: "zero_pad 1 n = [''0123456789'' ! (n mod 10)]"
  using zero_pad.simps(2)[of 0 n] by simp

lemmas iso_simps = date_isoformat_def datetime_isoformat_def ord2ymd_def days_before_month_def
  days_in_month_def Let_def zero_pad_numeral zero_pad_1

lemma demo_clock_0: "isoformat_dt demo_env (clock demo_env 0) = ''2024-06-10T12:00:00''"
  by (simp add: demo_env_def iso_simps)

lemma demo_clock_1: "isoformat_dt demo_env (clock demo_env (Suc 0)) = ''2024-06-10T12:00:00.000001''"
  by (simp add: demo_env_def iso_simps)

lemma demo_respond_simps [simp]:
  "respond demo_env h (EncryptUserData v) = Inr (VDict [(''ciphertext'', v)])"
  "respond demo_env h (DecryptUserData (VDict [(''ciphertext'', v)])) = Inr v"
  "respond demo_env h (RegisterUser who u d) = Inr (VBool True)"
  "respond demo_env h (Start who) = Inr VNone"
  "respond demo_env h (Stop who) = Inr VNone"
  by (simp_all add: demo_env_def demo_respond_def dict_item_def)

lemma demo_register:
  "register_user demo_env ''user123'' demo_user_data init =
     (Inr (VBool True),
      \<lparr>is_running = False, active_users = [(''user123'', demo_profile)],
       trace = register_order ''user123'' demo_user_data, ticks = 2\<rparr>)"
  by (simp add: register_user_def registered_def init_def register_order_def demo_profile_def
      demo_clock_0 demo_clock_1)

lemma demo_state_eq:
  "demo_state =
     \<lparr>is_running = False, active_users = [(''user123'', demo_profile)],
      trace = register_order ''user123'' demo_user_data, ticks = 2\<rparr>"
  by (simp add: demo_state_def demo_register)

lemma ret_apply [simp]: "ret v s = (Inr v, s)"
  by (simp add: ret_def)

lemma and_then_assoc [simp]:
  "and_then (and_then m g) f = and_then m (\<lambda>x. and_then (g x) f)"
  by (auto simp: and_then_def fun_eq_iff split: sum.splits prod.splits)

lemma and_then_if [simp]:
  "and_then (if b then m1 else m2) f = (if b then and_then m1 f else and_then m2 f)"
  by simp

lemma and_then_get_user [simp]:
  "and_then (get_user user_id) f s =
     (case map_of (active_users s) user_id of
        None \<Rightarrow> (Inl (KeyError user_id), s)
      | Some profile \<Rightarrow> f profile s)"
  by (simp add: and_then_def get_user_def split: option.splits)

lemma and_then_notify_healthcare_provider [simp]:
  "and_then (notify_healthcare_provider env user_id alert) f s =
     f VNone (s\<lparr>trace := trace s @ [NotifyHealthcareProvider user_id alert]\<rparr>)"
  by (simp add: and_then_def notify_healthcare_provider_def)

lemma handle_health_alert_dict:
  "handle_health_alert env user_id (VDict a) s =
     (let severity = dict_get a ''severity'' (VStr ''medium'') in
      if severity = VStr ''high'' then
        (case respond env (trace s) (SendUrgentNotification user_id (VDict a)) of
           Inl e \<Rightarrow> (Inl e, s\<lparr>trace := trace s @ [SendUrgentNotification user_id (VDict a)]\<rparr>)
         | Inr v \<Rightarrow>
            (case map_of (active_users s) user_id of
               None \<Rightarrow> (Inl (KeyError user_id),
                          s\<lparr>trace := trace s @ [SendUrgentNotification user_id (VDict a)]\<rparr>)
             | Some profile \<Rightarrow>
                 if py_truthy (dict_get profile ''notify_healthcare_provider'' (VBool False))
                 then (Inr alert_handled,
                       s\<lparr>trace := trace s @ [SendUrgentNotification user_id (VDict a),
                                              NotifyHealthcareProvider user_id (VDict a)]\<rparr>)
                 else (Inr alert_handled,
                       s\<lparr>trace := trace s @ [SendUrgentNotification user_id (VDict a)]\<rparr>)))
      else if severity = VStr ''medium'' then
        (case respond env (trace s) (SendNotification user_id (VDict a)) of
           Inl e \<Rightarrow> (Inl e, s\<lparr>trace := trace s @ [SendNotification user_id (VDict a)]\<rparr>)
         | Inr v \<Rightarrow> (Inr alert_handled, s\<lparr>trace := trace s @ [SendNotification user_id (VDict a)]\<rparr>))
      else
        (case respond env (trace s) (AddToHealthReport user_id (VDict a)) of
           Inl e \<Rightarrow> (Inl e, s\<lparr>trace := trace s @ [AddToHealthReport user_id (VDict a)]\<rparr>)
         | Inr v \<Rightarrow> (Inr alert_handled, s\<lparr>trace := trace s @ [AddToHealthReport user_id (VDict a)]\<rparr>)))"
  by (simp add: handle_health_alert_def alert_handled_def Let_def
      split: sum.splits option.splits)

lemma handle_health_alert_state:
  "dict_get a ''severity'' (VStr ''medium'') \<noteq> VStr ''high'' \<Longrightarrow>
   snd (handle_health_alert env user_id (VDict a) s) =
     s\<lparr>trace := trace s @
        [if dict_get a ''severity'' (VStr ''medium'') = VStr ''medium''
         then SendNotification user_id (VDict a) else AddToHealthReport user_id (VDict a)]\<rparr>"
  by (simp add: handle_health_alert_dict Let_def split: sum.splits)

lemma and_then_update_last_activity [simp]:
  "registered s user_id \<Longrightarrow>
   and_then (update_last_activity env user_id) f s = f () (touched env user_id s)"
  by (auto simp: update_last_activity_def set_user_field_def touched_def registered_def
      and_then_def now_def split: option.splits)

lemma touched_simps [simp]:
  "trace (touched env user_id s) = trace s"
  "ticks (touched env user_id s) = Suc (ticks s)"
  "is_running (touched env user_id s) = is_running s"
  by (simp_all add: touched_def split: option.splits)

lemma touched_last_activity:
  "registered s user_id \<Longrightarrow>
   last_activity_of (touched env user_id s) user_id =
     Some (VStr (isoformat_dt env (clock env (ticks s))))"
  by (auto simp: touched_def last_activity_of_def registered_def update_conv')

lemma new_calls_append [simp]: "new_calls s (s'\<lparr>trace := trace s @ cs\<rparr>) = cs"
  by (simp add: new_calls_def)
lemma get_health_report_registered:
  "registered s user_id \<Longrightarrow>
   get_health_report env user_id report_type s =
     (let s2 = (touched env user_id s)\<lparr>ticks := Suc (Suc (ticks s))\<rparr>;
          end_date = today env s
      in if report_type = ''daily'' then fetch_report env user_id report_type end_date end_date s2
         else if report_type = ''weekly'' then
           (case date_minus_days end_date 7 of
              Inl e \<Rightarrow> (Inl e, s2)
            | Inr start_date \<Rightarrow> fetch_report env user_id report_type start_date end_date s2)
         else if report_type = ''monthly'' then
           (case date_minus_days end_date 30 of
              Inl e \<Rightarrow> (Inl e, s2)
            | Inr start_date \<Rightarrow> fetch_report env user_id report_type start_date end_date s2)
         else (Inr (VDict [(''status'', VStr ''error''),
                           (''message'', VStr (''Invalid report type: '' @ report_type))]), s2))"
  by (simp add: get_health_report_def fetch_report_def today_def Let_def cong: sum.case_cong)

lemma fetch_report_window:
  "trace s2 = trace s \<Longrightarrow>
   (case fetch_report env user_id report_type start_date end_date s2 of
      (r, s') \<Rightarrow>
        trace s' = trace s @ new_calls s s' \<and>
        new_calls s s' \<noteq> [] \<and>
        prefix (new_calls s s') (report_calls user_id start_date end_date) \<and>
        (all_return env (trace s) (report_calls user_id start_date end_date) \<longrightarrow>
           new_calls s s' = report_calls user_id start_date end_date \<and>
           report_field r ''start_date'' = Some (VStr (isoformat_d env start_date)) \<and>
           report_field r ''end_date'' = Some (VStr (isoformat_d env end_date))))"
  by (simp add: fetch_report_def report_calls_def new_calls_def report_field_def
      split: sum.splits)

lemma demo_today: "today demo_env demo_state = 739047"
  by (simp add: today_def demo_env_def date_of_def)

lemma demo_dates:
  "isoformat_d demo_env 739047 = ''2024-06-10''"
  "isoformat_d demo_env 739040 = ''2024-06-03''"
  "isoformat_d demo_env 739017 = ''2024-05-11''"
  by (simp_all add: demo_env_def iso_simps)

lemma demo_registered: "registered demo_state ''user123''"
  by (simp add: demo_state_eq registered_def)

lemma demo_report_calls_return:
  "all_return demo_env h (report_calls user_id start_date end_date)"
  by (simp add: report_calls_def demo_env_def demo_respond_def)

lemma delete_absent: "map_of d k = None \<Longrightarrow> AList.delete k d = d"
  by (induction d) (auto simp: AList.delete_eq split: if_splits)

lemma and_then_set_user_field [simp]:
  "and_then (set_user_field user_id k v) f s =
     (case map_of (active_users s) user_id of
        None \<Rightarrow> (Inl (KeyError user_id), s)
      | Some profile \<Rightarrow>
          f () (s\<lparr>active_users := AList.update user_id (AList.update k v profile) (active_users s)\<rparr>))"
  by (simp add: and_then_def set_user_field_def split: option.splits)

lemma touched_profile:
  "map_of (active_users s) user_id = Some profile \<Longrightarrow>
   map_of (active_users (touched env user_id s)) user_id =
     Some (AList.update ''last_activity'' (VStr (isoformat_dt env (clock env (ticks s)))) profile)"
  by (simp add: touched_def update_conv')

lemma stored_payload_touched [simp]:
  "stored_payload (touched env user_id s) u = stored_payload s u"
  by (auto simp: stored_payload_def touched_def update_conv' split: option.splits)

lemma stored_payload_trace [simp]: "stored_payload (s\<lparr>trace := t\<rparr>) u = stored_payload s u"
  by (simp add: stored_payload_def)

lemma update_recommendations_state:
  "snd (update_recommendations env user_id analysis_result s) =
     s\<lparr>trace := trace (snd (update_recommendations env user_id analysis_result s))\<rparr>"
  by (simp add: update_recommendations_def split: sum.splits)

lemma update_recommendations_untouched:
  "last_activity_of (snd (update_recommendations env user_id analysis_result s)) u =
     last_activity_of s u"
  "ticks (snd (update_recommendations env user_id analysis_result s)) = ticks s"
  by (subst update_recommendations_state, simp add: last_activity_of_def)+

lemma and_then_decrypt_user_data [simp]:
  "and_then (decrypt_user_data env c) f s =
     (case respond env (trace s) (DecryptUserData c) of
        Inl e \<Rightarrow> (Inl e, s\<lparr>trace := trace s @ [DecryptUserData c]\<rparr>)
      | Inr v \<Rightarrow>
          f (v, decrypt_shares env (trace s) c) (s\<lparr>trace := trace s @ [DecryptUserData c]\<rparr>))"
  by (simp add: and_then_def decrypt_user_data_def split: sum.splits)

lemma write_through_returns: "fst (write_through user_id shared old new s) = Inr ()"
  by (simp add: write_through_def split: option.splits)

lemma and_then_write_through [simp]:
  "and_then (write_through user_id shared old new) f s =
     f () (snd (write_through user_id shared old new s))"
  using write_through_returns[of user_id shared old new s]
  by (cases "write_through user_id shared old new s") (simp add: and_then_def)

lemma write_through_fresh [simp]: "snd (write_through user_id None old new s) = s"
  by (simp add: write_through_def)

lemma write_through_trace [simp]:
  "trace (snd (write_through user_id shared old new s)) = trace s"
  by (simp add: write_through_def split: option.splits)

lemma and_then_del_in_place [simp]:
  "and_then (del_in_place user_id shared obj k) f s =
     (case py_delitem obj k of
        Inl e \<Rightarrow> (Inl e, s)
      | Inr obj' \<Rightarrow> f obj' (snd (write_through user_id shared obj obj' s)))"
  by (simp add: del_in_place_def split: sum.splits)

lemma and_then_set_in_place [simp]:
  "and_then (set_in_place user_id shared obj k v) f s =
     (case py_setitem obj k v of
        Inl e \<Rightarrow> (Inl e, s)
      | Inr obj' \<Rightarrow> f obj' (snd (write_through user_id shared obj obj' s)))"
  by (simp add: set_in_place_def split: sum.splits)

lemma get_user_profile_result:
  "map_of (active_users s) user_id = Some profile \<Longrightarrow>
   fst (get_user_profile env user_id s) =
     (let profile1 = AList.update ''last_activity''
                       (VStr (isoformat_dt env (clock env (ticks s)))) profile
      in case dict_item profile1 ''encrypted_data'' of
           Inl e \<Rightarrow> Inl e
         | Inr c \<Rightarrow>
             (case respond env (trace s) (DecryptUserData c) of
                Inl e \<Rightarrow> Inl e
              | Inr user_data \<Rightarrow>
                  (case profile_view profile1 user_data of
                     Inl e \<Rightarrow> Inl e
                   | Inr v \<Rightarrow> Inr (VDict [(''status'', VStr ''success''), (''profile'', v)]))))"
  by (simp add: get_user_profile_def registered_def touched_profile profile_view_def Let_def
      split: sum.splits)

lemma get_user_profile_fresh:
  "map_of (active_users s) user_id = Some profile \<Longrightarrow>
   (\<And>c. map_of profile ''encrypted_data'' = Some c \<Longrightarrow> decrypt_shares env (trace s) c = None) \<Longrightarrow>
   stored_payload (snd (get_user_profile env user_id s)) user_id = stored_payload s user_id"
  by (simp add: get_user_profile_def registered_def touched_profile dict_item_def update_conv'
      split: sum.splits option.splits)

lemma profile_view_no_password:
  "profile_view profile user_data = Inr v \<Longrightarrow> \<exists>d. v = VDict d \<and> map_of d ''password'' = None"
  by (cases user_data)
    (auto simp: profile_view_def update_conv' delete_conv' split: sum.splits if_splits)

lemma profile_view_dict:
  "map_of profile ''registered_at'' = Some registered_at \<Longrightarrow>
   map_of profile ''last_activity'' = Some last_activity \<Longrightarrow>
   profile_view profile (VDict d) =
     Inr (VDict (AList.update ''last_activity'' last_activity
                  (AList.update ''registered_at'' registered_at (AList.delete ''password'' d))))"
  by (simp add: profile_view_def dict_item_def delete_absent)

lemma recommender_down_simps [simp]:
  "respond recommender_down h (EncryptUserData v) = Inr (VDict [(''ciphertext'', v)])"
  "respond recommender_down h (RegisterUser Sensor u d) = Inr (VBool True)"
  "respond recommender_down h (RegisterUser Analyzer u d) = Inr (VBool True)"
  "respond recommender_down h (RegisterUser Recommender u d) =
     Inl (CollaboratorError ''recommender unavailable'')"
  by (simp_all add: recommender_down_def demo_env_def demo_respond_def)

lemma recommender_down_register:
  "register_user recommender_down ''user123'' demo_user_data init =
     (Inl (CollaboratorError ''recommender unavailable''),
      \<lparr>is_running = False, active_users = [],
       trace = [EncryptUserData demo_user_data,
                RegisterUser Sensor ''user123'' demo_user_data,
                RegisterUser Analyzer ''user123'' demo_user_data,
                RegisterUser Recommender ''user123'' demo_user_data],
       ticks = 2\<rparr>)"
  by (simp add: register_user_def registered_def init_def)

section \<open>Properties kept by every operation\<close>

text \<open>
  The steps of an operation are composed with \<open>and_then\<close>, so a property of the state
  that every step keeps is kept by the operation. Two such properties follow: the
  healthcare provider is never notified in a reachable state, and a step that does not
  write \<^verbatim>\<open>last_activity\<close> leaves the timestamp of every user alone.
\<close>

lemma preserves_ret [intro!]: "preserves P (ret v)"
  by (simp add: preserves_def)

lemma preserves_lift [intro!]: "preserves P (lift r)"
  by (simp add: preserves_def lift_def)

lemma preserves_and_then [intro!]:
  "preserves P m \<Longrightarrow> (\<And>v. preserves P (f v)) \<Longrightarrow> preserves P (and_then m f)"
  unfolding preserves_def and_then_def
  by (auto split: sum.splits prod.splits)

lemma preserves_if [intro!]:
  "(c \<Longrightarrow> preserves P a) \<Longrightarrow> (\<not> c \<Longrightarrow> preserves P b) \<Longrightarrow> preserves P (if c then a else b)"
  by simp

lemma preserves_guard:
  "preserves P a \<Longrightarrow> preserves P b \<Longrightarrow> preserves P (\<lambda>s. if c s then a s else b s)"
  by (simp add: preserves_def)

lemma preserves_for_each [intro!]:
  "(\<And>x. preserves P (f x)) \<Longrightarrow> preserves P (for_each f xs)"
  by (induction xs) auto

lemma preserves_invoke:
  "(\<And>s. P s \<Longrightarrow> P (s\<lparr>trace := trace s @ [c]\<rparr>)) \<Longrightarrow> preserves P (invoke env c)"
  by (simp add: preserves_def invoke_def)

lemma preserves_now:
  "(\<And>s. P s \<Longrightarrow> P (s\<lparr>ticks := Suc (ticks s)\<rparr>)) \<Longrightarrow> preserves P (now env)"
  by (simp add: preserves_def now_def)

lemma preserves_get_user [intro!]: "preserves P (get_user user_id)"
  by (simp add: preserves_def get_user_def split: option.splits)

lemma preserves_set_user_field:
  "(\<And>s profile. P s \<Longrightarrow> map_of (active_users s) user_id = Some profile \<Longrightarrow>
      P (s\<lparr>active_users := AList.update user_id (AList.update k v profile) (active_users s)\<rparr>)) \<Longrightarrow>
   preserves P (set_user_field user_id k v)"
  by (simp add: preserves_def set_user_field_def split: option.splits)

lemma preserves_case_option [intro!]:
  "preserves P a \<Longrightarrow> (\<And>x. preserves P (b x)) \<Longrightarrow>
   preserves P (case x of None \<Rightarrow> a | Some y \<Rightarrow> b y)"
  by (cases x) auto

lemma preserves_case_prod [intro!]:
  "(\<And>a b. preserves P (f a b)) \<Longrightarrow> preserves P (case x of (a, b) \<Rightarrow> f a b)"
  by (cases x) simp

lemma preserves_decrypt_user_data:
  "(\<And>s. P s \<Longrightarrow> P (s\<lparr>trace := trace s @ [DecryptUserData c]\<rparr>)) \<Longrightarrow>
   preserves P (decrypt_user_data env c)"
  by (simp add: preserves_def decrypt_user_data_def)

lemma preserves_write_through:
  "(\<And>s profile c. P s \<Longrightarrow> map_of (active_users s) user_id = Some profile \<Longrightarrow>
      P (s\<lparr>active_users := AList.update user_id
            (AList.update ''encrypted_data'' c profile) (active_users s)\<rparr>)) \<Longrightarrow>
   preserves P (write_through user_id shared old new)"
  by (simp add: preserves_def write_through_def split: option.splits)

lemma preserves_del_in_place:
  "(\<And>old new. preserves P (write_through user_id shared old new)) \<Longrightarrow>
   preserves P (del_in_place user_id shared obj k)"
  unfolding del_in_place_def by (intro preserves_and_then preserves_lift preserves_ret)

lemma preserves_set_in_place:
  "(\<And>old new. preserves P (write_through user_id shared old new)) \<Longrightarrow>
   preserves P (set_in_place user_id shared obj k v)"
  unfolding set_in_place_def by (intro preserves_and_then preserves_lift preserves_ret)

lemma preserves_set_items:
  "(\<And>old new. preserves P (write_through user_id shared old new)) \<Longrightarrow>
   preserves P (set_items user_id shared user_data kvs)"
proof (induction kvs arbitrary: user_data)
  case Nil
  show ?case unfolding set_items.simps by (rule preserves_ret)
next
  case (Cons kv kvs)
  obtain k v where kv: "kv = (k, v)" by (cases kv)
  show ?case
    unfolding kv set_items.simps
    by (intro preserves_and_then preserves_set_in_place Cons)
qed

lemma preserves_raw:
  "(\<And>s. P s \<Longrightarrow> P (g s)) \<Longrightarrow> preserves P (\<lambda>s. (r, g s))"
  by (simp add: preserves_def)

lemma silent_invoke:
  "(\<And>u alert. c \<noteq> NotifyHealthcareProvider u alert) \<Longrightarrow>
   preserves provider_silent (invoke env c)"
  by (rule preserves_invoke) (auto simp: provider_silent_def)

lemma silent_now: "preserves provider_silent (now env)"
  by (rule preserves_now) (simp add: provider_silent_def)

lemma silent_set_user_field:
  "k \<noteq> ''notify_healthcare_provider'' \<Longrightarrow>
   preserves provider_silent (set_user_field user_id k v)"
  by (rule preserves_set_user_field) (auto simp: provider_silent_def update_conv')

lemma silent_update_last_activity:
  "preserves provider_silent (update_last_activity env user_id)"
  unfolding update_last_activity_def
  by (intro preserves_and_then silent_now silent_set_user_field) simp

lemma silent_decrypt_user_data: "preserves provider_silent (decrypt_user_data env c)"
  by (rule preserves_decrypt_user_data) (auto simp: provider_silent_def)

lemma silent_write_through:
  "preserves provider_silent (write_through user_id shared old new)"
  by (rule preserves_write_through) (auto simp: provider_silent_def update_conv')

lemma silent_in_place:
  "preserves provider_silent (del_in_place user_id shared obj k)"
  "preserves provider_silent (set_in_place user_id shared obj k v)"
  "preserves provider_silent (set_items user_id shared obj kvs)"
  by (intro preserves_del_in_place preserves_set_in_place preserves_set_items
      silent_write_through)+

lemmas silent_intros =
  preserves_and_then preserves_if preserves_ret preserves_lift preserves_for_each
  preserves_get_user preserves_case_option preserves_case_prod preserves_raw
  silent_invoke silent_now silent_update_last_activity silent_set_user_field
  silent_decrypt_user_data silent_in_place

lemma silent_start: "preserves provider_silent (start env)"
  unfolding start_def
  by (rule preserves_guard) (intro silent_intros; simp add: provider_silent_def)+

lemma silent_stop: "preserves provider_silent (stop env)"
  unfolding stop_def
  by (rule preserves_guard) (intro silent_intros; simp add: provider_silent_def)+

lemma silent_register_user: "preserves provider_silent (register_user env user_id user_data)"
  unfolding register_user_def
  by (rule preserves_guard) (intro silent_intros; simp add: provider_silent_def update_conv')+

lemma silent_update_recommendations:
  "preserves provider_silent (update_recommendations env user_id analysis_result)"
  unfolding update_recommendations_def
  by (rule preserves_guard) (intro silent_intros; simp)+

lemma silent_handle_health_alert:
  "preserves provider_silent (handle_health_alert env user_id alert)"
proof (cases alert)
  case (VDict a)
  show ?thesis
    unfolding preserves_def VDict handle_health_alert_dict Let_def
    by (auto simp: provider_silent_def dict_get_def split: sum.splits option.splits)
qed (simp_all add: preserves_def handle_health_alert_def)

lemma silent_process_sensor_data:
  "preserves provider_silent (process_sensor_data env user_id sensor_data)"
  unfolding process_sensor_data_def
  by (rule preserves_guard)
    (intro silent_intros silent_update_recommendations silent_handle_health_alert; simp)+

lemma silent_record_supplement_intake:
  "preserves provider_silent (record_supplement_intake env user_id supplement_id intake_time)"
  unfolding record_supplement_intake_def
  by (rule preserves_guard) (intro silent_intros; simp)+

lemma silent_get_user_dashboard:
  "preserves provider_silent (get_user_dashboard env user_id)"
  unfolding get_user_dashboard_def
  by (rule preserves_guard) (intro silent_intros; simp)+

lemma silent_get_health_report:
  "preserves provider_silent (get_health_report env user_id report_type)"
  unfolding get_health_report_def Let_def
  by (rule preserves_guard) (intro silent_intros; simp)+

lemma silent_get_user_profile:
  "preserves provider_silent (get_user_profile env user_id)"
  unfolding get_user_profile_def
  by (rule preserves_guard) (intro silent_intros; simp)+

lemma silent_forward_settings:
  "preserves provider_silent (forward_settings env flag c user_id update_data)"
  unfolding forward_settings_def by (intro silent_intros; simp)

lemma silent_update_user_profile:
  "preserves provider_silent (update_user_profile env user_id update_data)"
  unfolding update_user_profile_def
  by (rule preserves_guard) (intro silent_intros silent_forward_settings; simp)+

lemma reachable_provider_silent: "reachable env s \<Longrightarrow> provider_silent s"
proof (induction rule: reachable.induct)
  case reach_init
  show ?case by (simp add: provider_silent_def init_def)
qed (use silent_start silent_stop silent_register_user silent_process_sensor_data
      silent_update_recommendations silent_record_supplement_intake silent_handle_health_alert
      silent_get_user_dashboard silent_get_health_report silent_get_user_profile
      silent_update_user_profile in \<open>auto simp: preserves_def\<close>)

lemma provider_never_notified:
  "reachable env s \<Longrightarrow> NotifyHealthcareProvider u alert \<notin> set (trace s)"
  using reachable_provider_silent[of env s] by (simp add: provider_silent_def)

lemma stamp_invoke: "preserves (\<lambda>s. last_activity_of s u = x) (invoke env c)"
  by (rule preserves_invoke) (simp add: last_activity_of_def)

lemma stamp_now: "preserves (\<lambda>s. last_activity_of s u = x) (now env)"
  by (rule preserves_now) (simp add: last_activity_of_def)

lemma stamp_set_user_field:
  "k \<noteq> ''last_activity'' \<Longrightarrow>
   preserves (\<lambda>s. last_activity_of s u = x) (set_user_field user_id k v)"
  by (rule preserves_set_user_field) (auto simp: last_activity_of_def update_conv')

lemma stamp_update_recommendations:
  "preserves (\<lambda>s. last_activity_of s u = x) (update_recommendations env user_id analysis_result)"
  by (simp add: preserves_def update_recommendations_untouched)

lemma stamp_handle_health_alert:
  "preserves (\<lambda>s. last_activity_of s u = x) (handle_health_alert env user_id alert)"
proof (cases alert)
  case (VDict a)
  show ?thesis
    unfolding preserves_def VDict handle_health_alert_dict Let_def
    by (auto simp: last_activity_of_def split: sum.splits option.splits)
qed (simp_all add: preserves_def handle_health_alert_def)

lemma stamp_forward_settings:
  "preserves (\<lambda>s. last_activity_of s u = x) (forward_settings env flag c user_id update_data)"
  unfolding forward_settings_def by (intro preserves_if preserves_ret stamp_invoke)

lemma stamp_decrypt_user_data:
  "preserves (\<lambda>s. last_activity_of s u = x) (decrypt_user_data env c)"
  by (rule preserves_decrypt_user_data) (simp add: last_activity_of_def)

lemma stamp_write_through:
  "preserves (\<lambda>s. last_activity_of s u = x) (write_through user_id shared old new)"
  by (rule preserves_write_through) (auto simp: last_activity_of_def update_conv')

lemma stamp_in_place:
  "preserves (\<lambda>s. last_activity_of s u = x) (del_in_place user_id shared obj k)"
  "preserves (\<lambda>s. last_activity_of s u = x) (set_in_place user_id shared obj k v)"
  "preserves (\<lambda>s. last_activity_of s u = x) (set_items user_id shared obj kvs)"
  by (intro preserves_del_in_place preserves_set_in_place preserves_set_items
      stamp_write_through)+

lemmas stamp_intros =
  preserves_and_then preserves_if preserves_ret preserves_lift preserves_for_each
  preserves_get_user preserves_case_option preserves_case_prod
  stamp_invoke stamp_now stamp_set_user_field stamp_update_recommendations
  stamp_handle_health_alert stamp_forward_settings stamp_decrypt_user_data stamp_in_place

lemma stamped_after_touch:
  assumes "registered s user_id"
    and "preserves (\<lambda>s'. last_activity_of s' user_id =
            Some (VStr (isoformat_dt env (clock env (ticks s))))) (f ())"
  shows "last_activity_of (snd (and_then (update_last_activity env user_id) f s)) user_id =
           Some (VStr (isoformat_dt env (clock env (ticks s))))"
  using assms(2) touched_last_activity[OF assms(1), of env]
  by (simp add: assms(1) preserves_def)

lemma siblings_update_last_activity:
  assumes "registered s user_id"
  shows "last_activity_of (snd (process_sensor_data env user_id sensor_data s)) user_id =
           Some (VStr (isoformat_dt env (clock env (ticks s))))"
    and "last_activity_of (snd (record_supplement_intake env user_id supplement_id intake_time s))
           user_id = Some (VStr (isoformat_dt env (clock env (ticks s))))"
    and "last_activity_of (snd (get_user_dashboard env user_id s)) user_id =
           Some (VStr (isoformat_dt env (clock env (ticks s))))"
    and "last_activity_of (snd (get_health_report env user_id report_type s)) user_id =
           Some (VStr (isoformat_dt env (clock env (ticks s))))"
    and "last_activity_of (snd (get_user_profile env user_id s)) user_id =
           Some (VStr (isoformat_dt env (clock env (ticks s))))"
    and "last_activity_of (snd (update_user_profile env user_id update_data s)) user_id =
           Some (VStr (isoformat_dt env (clock env (ticks s))))"
  unfolding process_sensor_data_def record_supplement_intake_def get_user_dashboard_def
    get_health_report_def get_user_profile_def update_user_profile_def Let_def
  using assms
  by (simp_all only: if_True if_False not_True_eq_False)
    ((rule stamped_after_touch, assumption, (intro stamp_intros; simp)+)+)

section \<open>Starting and stopping\<close>

text \<open>
  Claim C9. \<^verbatim>\<open>start\<close> on a running system returns \<^verbatim>\<open>False\<close> and changes nothing:
  no component is started again. \<^verbatim>\<open>stop\<close> on a system that is not running returns
  \<^verbatim>\<open>False\<close> and changes nothing. Otherwise, when the six component calls return,
  \<^verbatim>\<open>start\<close> returns \<^verbatim>\<open>True\<close> after starting the components in the order sensor,
  analyzer, recommender, intake, security, ui and sets the running flag, and
  \<^verbatim>\<open>stop\<close> returns \<^verbatim>\<open>True\<close> after stopping them in the reverse order and clears it.
\<close>

theorem start_stop_idempotent:
  "(is_running s \<longrightarrow> start env s = (Inr (VBool False), s)) \<and>
   (\<not> is_running s \<longrightarrow> stop env s = (Inr (VBool False), s)) \<and>
   (\<not> is_running s \<and> all_return env (trace s) start_order \<longrightarrow>
      start env s = (Inr (VBool True), s\<lparr>is_running := True, trace := trace s @ start_order\<rparr>)) \<and>
   (is_running s \<and> all_return env (trace s) stop_order \<longrightarrow>
      stop env s = (Inr (VBool True), s\<lparr>is_running := False, trace := trace s @ stop_order\<rparr>))"
  by (auto simp: start_def stop_def ret_def start_order_def stop_order_def split: sum.splits)

theorem start_stop_idempotent_witness:
  "start demo_env (init\<lparr>is_running := True\<rparr>) = (Inr (VBool False), init\<lparr>is_running := True\<rparr>) \<and>
   stop demo_env init = (Inr (VBool False), init) \<and>
   start demo_env init = (Inr (VBool True), init\<lparr>is_running := True, trace := start_order\<rparr>) \<and>
   stop demo_env (init\<lparr>is_running := True\<rparr>) =
     (Inr (VBool True), init\<lparr>is_running := False, trace := stop_order\<rparr>)"
  using start_stop_idempotent[of init demo_env]
    start_stop_idempotent[of "init\<lparr>is_running := True\<rparr>" demo_env]
  by (simp add: init_def start_order_def stop_order_def)

section \<open>Registration\<close>

text \<open>
  Claim C2. For an id that is already in the registry, \<^verbatim>\<open>register_user\<close> returns the
  failure result \<^verbatim>\<open>False\<close> without raising, and the whole state is the one before
  the call: the stored profiles are unchanged, no collaborator is called and the clock
  is not read.
\<close>

theorem register_user_twice:
  "registered s user_id \<Longrightarrow> register_user env user_id user_data s = (Inr (VBool False), s)"
  by (simp add: register_user_def ret_def)

theorem register_user_twice_witness:
  "registered demo_state ''user123'' \<and>
   register_user demo_env ''user123'' (VDict []) demo_state = (Inr (VBool False), demo_state)"
proof -
  have r: "registered demo_state ''user123''"
    by (simp add: demo_state_eq registered_def)
  from register_user_twice[OF r] show ?thesis using r by simp
qed

section \<open>Unknown users\<close>

text \<open>
  Claim C3. For an id that is not in the registry, each of \<^verbatim>\<open>process_sensor_data\<close>,
  \<^verbatim>\<open>update_recommendations\<close>, \<^verbatim>\<open>record_supplement_intake\<close>,
  \<^verbatim>\<open>get_user_dashboard\<close>, \<^verbatim>\<open>get_health_report\<close>, \<^verbatim>\<open>get_user_profile\<close> and
  \<^verbatim>\<open>update_user_profile\<close> returns the error "User not registered" and leaves the
  state as it was: no profile is changed and no collaborator is called.
\<close>

theorem unknown_user_not_found:
  "\<not> registered s user_id \<Longrightarrow>
     process_sensor_data env user_id sensor_data s = (Inr not_registered, s) \<and>
     update_recommendations env user_id analysis_result s = (Inr not_registered, s) \<and>
     record_supplement_intake env user_id supplement_id intake_time s = (Inr not_registered, s) \<and>
     get_user_dashboard env user_id s = (Inr not_registered, s) \<and>
     get_health_report env user_id report_type s = (Inr not_registered, s) \<and>
     get_user_profile env user_id s = (Inr not_registered, s) \<and>
     update_user_profile env user_id update_data s = (Inr not_registered, s)"
  by (simp add: process_sensor_data_def update_recommendations_def
      record_supplement_intake_def get_user_dashboard_def get_health_report_def
      get_user_profile_def update_user_profile_def ret_def)

theorem unknown_user_not_found_witness:
  "\<not> registered demo_state ''nobody'' \<and>
   process_sensor_data demo_env ''nobody'' VNone demo_state = (Inr not_registered, demo_state) \<and>
   update_recommendations demo_env ''nobody'' VNone demo_state = (Inr not_registered, demo_state) \<and>
   record_supplement_intake demo_env ''nobody'' ''vd001'' VNone demo_state = (Inr not_registered, demo_state) \<and>
   get_user_dashboard demo_env ''nobody'' demo_state = (Inr not_registered, demo_state) \<and>
   get_health_report demo_env ''nobody'' ''weekly'' demo_state = (Inr not_registered, demo_state) \<and>
   get_user_profile demo_env ''nobody'' demo_state = (Inr not_registered, demo_state) \<and>
   update_user_profile demo_env ''nobody'' [] demo_state = (Inr not_registered, demo_state)"
proof -
  have r: "\<not> registered demo_state ''nobody''"
    by (simp add: demo_state_eq registered_def)
  from unknown_user_not_found[OF r] show ?thesis using r by simp
qed

section \<open>Alert routing\<close>

text \<open>
  Claim C5, as amended. An alert without a severity field is handled as severity
  medium: one standard notification is sent and nothing else. An alert whose severity
  field is present and is neither "high" nor "medium" - "low" or any other value - only
  gets an entry in the health report, with no notification.
\<close>

theorem severity_default:
  "(map_of a ''severity'' = None \<longrightarrow> standard_notification_only env user_id (VDict a) s) \<and>
   (map_of a ''severity'' = Some (VStr ''medium'') \<longrightarrow>
      standard_notification_only env user_id (VDict a) s) \<and>
   (map_of a ''severity'' = Some v \<and> v \<noteq> VStr ''high'' \<and> v \<noteq> VStr ''medium'' \<longrightarrow>
      report_append_only env user_id (VDict a) s)"
  by (simp add: standard_notification_only_def report_append_only_def handle_health_alert_state
      dict_get_def)

text \<open>
  Claim C5 as stated fails: an alert of the unknown severity "critical" is not handled
  as severity medium.
\<close>

theorem unknown_severity_counterexample:
  "\<not> standard_notification_only demo_env ''user123'' unknown_alert demo_state"
  by (simp add: standard_notification_only_def unknown_alert_def handle_health_alert_state
      dict_get_def demo_state_eq)

theorem severity_default_witness:
  "standard_notification_only demo_env ''user123'' (VDict [(''message'', VStr ''iron is low'')]) demo_state \<and>
   standard_notification_only demo_env ''user123''
      (VDict [(''message'', VStr ''iron is low''), (''severity'', VStr ''medium'')]) demo_state \<and>
   report_append_only demo_env ''user123'' unknown_alert demo_state"
  using severity_default[where a = "[(''message'', VStr ''iron is low'')]" and env = demo_env
       and user_id = "''user123''" and s = demo_state]
    severity_default[where a = "[(''message'', VStr ''iron is low''), (''severity'', VStr ''medium'')]"
       and env = demo_env and user_id = "''user123''" and s = demo_state]
    severity_default[where a = "[(''message'', VStr ''iron is low''), (''severity'', VStr ''critical'')]"
       and v = "VStr ''critical''" and env = demo_env and user_id = "''user123''" and s = demo_state]
  by (simp add: unknown_alert_def)

text \<open>
  Claim C4 at the example user, whose registration data set
  \<^verbatim>\<open>notify_healthcare_provider\<close> to \<^verbatim>\<open>True\<close>: an alert of severity high sends the
  urgent notification, and the healthcare provider is not notified. The setting is
  looked up in the registry profile, which \<^verbatim>\<open>register_user\<close> builds without it
  and no operation adds it to: by \<open>provider_never_notified\<close> the provider is notified
  in no reachable state.
\<close>

theorem high_alert_provider_not_notified:
  "py_get demo_user_data ''notify_healthcare_provider'' (VBool False) = Inr (VBool True) \<and>
   register_user demo_env ''user123'' demo_user_data init = (Inr (VBool True), demo_state) \<and>
   handle_health_alert demo_env ''user123'' demo_alert demo_state =
     (Inr alert_handled,
      demo_state\<lparr>trace := trace demo_state @ [SendUrgentNotification ''user123'' demo_alert]\<rparr>)"
proof -
  have "py_get demo_user_data ''notify_healthcare_provider'' (VBool False) = Inr (VBool True)"
    by (simp add: demo_user_data_def dict_get_def)
  moreover have "register_user demo_env ''user123'' demo_user_data init = (Inr (VBool True), demo_state)"
    by (simp add: demo_register demo_state_eq)
  moreover have "respond demo_env h (SendUrgentNotification u a) = Inr VNone" for h u a
    by (simp add: demo_env_def demo_respond_def)
  then have "handle_health_alert demo_env ''user123'' demo_alert demo_state =
     (Inr alert_handled,
      demo_state\<lparr>trace := trace demo_state @ [SendUrgentNotification ''user123'' demo_alert]\<rparr>)"
    by (simp add: demo_alert_def handle_health_alert_dict Let_def dict_get_def demo_state_eq
        demo_profile_def)
  ultimately show ?thesis by simp
qed

section \<open>Health reports\<close>

text \<open>
  Claim C6. For a registered id, with today the date read from the clock,
  \<^verbatim>\<open>get_health_report\<close> fetches a daily report for the window from today to today,
  a weekly report for the window from today minus 7 days to today, and a monthly report
  for the window from today minus 30 days to today (the start date has to be a date of
  the calendar). Any other report type fails with the "Invalid report type" error before
  any collaborator is called.
\<close>

theorem health_report_window:
  "registered s user_id \<Longrightarrow>
     (report_type = ''daily'' \<longrightarrow>
        report_window env user_id report_type s (today env s) (today env s)) \<and>
     (report_type = ''weekly'' \<and> valid_date (today env s) \<and> 7 < today env s \<longrightarrow>
        report_window env user_id report_type s (today env s - 7) (today env s)) \<and>
     (report_type = ''monthly'' \<and> valid_date (today env s) \<and> 30 < today env s \<longrightarrow>
        report_window env user_id report_type s (today env s - 30) (today env s)) \<and>
     (report_type \<noteq> ''daily'' \<and> report_type \<noteq> ''weekly'' \<and> report_type \<noteq> ''monthly'' \<longrightarrow>
        invalid_report_type env user_id report_type s)"
proof -
  assume reg: "registered s user_id"
  let ?s2 = "(touched env user_id s)\<lparr>ticks := Suc (Suc (ticks s))\<rparr>"
  have tr: "trace ?s2 = trace s" by simp
  note w = fetch_report_window[OF tr, where env = env and user_id = user_id]
  have daily: "report_window env user_id ''daily'' s (today env s) (today env s)"
    unfolding report_window_def get_health_report_registered[OF reg] Let_def
    using w[where report_type = "''daily''" and start_date = "today env s" and end_date = "today env s"] by simp
  have weekly: "report_window env user_id ''weekly'' s (today env s - 7) (today env s)"
    if "valid_date (today env s)" "7 < today env s"
    unfolding report_window_def get_health_report_registered[OF reg] Let_def
    using w[where report_type = "''weekly''" and start_date = "today env s - 7" and end_date = "today env s"] that
    by (simp add: date_minus_days_def valid_date_def)
  have monthly: "report_window env user_id ''monthly'' s (today env s - 30) (today env s)"
    if "valid_date (today env s)" "30 < today env s"
    unfolding report_window_def get_health_report_registered[OF reg] Let_def
    using w[where report_type = "''monthly''" and start_date = "today env s - 30" and end_date = "today env s"] that
    by (simp add: date_minus_days_def valid_date_def)
  have other: "invalid_report_type env user_id report_type s"
    if "report_type \<noteq> ''daily''" "report_type \<noteq> ''weekly''" "report_type \<noteq> ''monthly''"
    unfolding invalid_report_type_def get_health_report_registered[OF reg] Let_def
    using that by simp
  show ?thesis using daily weekly monthly other by blast
qed

theorem health_report_window_witness:
  "registered demo_state ''user123'' \<and>
   valid_date (today demo_env demo_state) \<and> 30 < today demo_env demo_state \<and>
   report_window demo_env ''user123'' ''daily'' demo_state 739047 739047 \<and>
   report_window demo_env ''user123'' ''weekly'' demo_state 739040 739047 \<and>
   report_window demo_env ''user123'' ''monthly'' demo_state 739017 739047 \<and>
   invalid_report_type demo_env ''user123'' ''yearly'' demo_state \<and>
   report_field (fst (get_health_report demo_env ''user123'' ''weekly'' demo_state)) ''start_date'' =
     Some (VStr ''2024-06-03'') \<and>
   report_field (fst (get_health_report demo_env ''user123'' ''weekly'' demo_state)) ''end_date'' =
     Some (VStr ''2024-06-10'')"
proof -
  note r = demo_registered
  have v: "valid_date (today demo_env demo_state)" "30 < today demo_env demo_state"
    by (simp_all add: demo_today valid_date_def)
  have d: "report_window demo_env ''user123'' ''daily'' demo_state 739047 739047"
    using health_report_window[OF r, of "''daily''" demo_env] by (simp add: demo_today)
  have w: "report_window demo_env ''user123'' ''weekly'' demo_state 739040 739047"
    using health_report_window[OF r, of "''weekly''" demo_env] v by (simp add: demo_today)
  have m: "report_window demo_env ''user123'' ''monthly'' demo_state 739017 739047"
    using health_report_window[OF r, of "''monthly''" demo_env] v by (simp add: demo_today)
  have y: "invalid_report_type demo_env ''user123'' ''yearly'' demo_state"
    using health_report_window[OF r, of "''yearly''" demo_env] by simp
  have f: "report_field (fst (get_health_report demo_env ''user123'' ''weekly'' demo_state)) ''start_date'' =
      Some (VStr ''2024-06-03'') \<and>
    report_field (fst (get_health_report demo_env ''user123'' ''weekly'' demo_state)) ''end_date'' =
      Some (VStr ''2024-06-10'')"
    using w by (simp add: report_window_def demo_report_calls_return demo_dates split: prod.splits)
  show ?thesis using r v d w m y f by simp
qed

section \<open>The time of the last activity\<close>

text \<open>
  Claim C7 fails for \<^verbatim>\<open>update_recommendations\<close>: the operation never writes
  \<^verbatim>\<open>last_activity\<close> and never reads the clock. For the example user it succeeds and
  the profile keeps the timestamp of the registration, while the sibling operation
  \<^verbatim>\<open>record_supplement_intake\<close> in the same state stores the current time. The six
  other operations on a registered id all store it (\<open>siblings_update_last_activity\<close>).
\<close>

theorem update_recommendations_keeps_last_activity:
  "last_activity_of (snd (update_recommendations env user_id analysis_result s)) u =
     last_activity_of s u \<and>
   ticks (snd (update_recommendations env user_id analysis_result s)) = ticks s \<and>
   update_recommendations demo_env ''user123'' VNone demo_state =
     (Inr (VDict [(''status'', VStr ''success''), (''recommendations'', VNone)]),
      demo_state\<lparr>trace := trace demo_state @
         [Recommend ''user123'' VNone, UpdateSchedule ''user123'' VNone,
          UpdateSupplementData ''user123'' VNone]\<rparr>) \<and>
   last_activity_of demo_state ''user123'' = Some (VStr ''2024-06-10T12:00:00.000001'') \<and>
   last_activity_of (snd (update_recommendations demo_env ''user123'' VNone demo_state)) ''user123'' =
     Some (VStr ''2024-06-10T12:00:00.000001'') \<and>
   last_activity_of (snd (record_supplement_intake demo_env ''user123'' ''vd001'' VNone demo_state))
       ''user123'' =
     Some (VStr ''2024-06-10T12:00:00.000002'')"
proof -
  note g1 = update_recommendations_untouched(1)
  note g2 = update_recommendations_untouched(2)
  have resp: "respond demo_env h (Recommend a b) = Inr VNone"
    "respond demo_env h (UpdateSchedule a b) = Inr VNone"
    "respond demo_env h (UpdateSupplementData a b) = Inr VNone"
    "respond demo_env h (RecordIntake a c b) = Inr VNone"
    "respond demo_env h (UpdateIntakeStatus a b) = Inr VNone" for h a b c
    by (simp_all add: demo_env_def demo_respond_def)
  have c1: "update_recommendations demo_env ''user123'' VNone demo_state =
     (Inr (VDict [(''status'', VStr ''success''), (''recommendations'', VNone)]),
      demo_state\<lparr>trace := trace demo_state @
         [Recommend ''user123'' VNone, UpdateSchedule ''user123'' VNone,
          UpdateSupplementData ''user123'' VNone]\<rparr>)"
    using demo_registered by (simp add: update_recommendations_def resp)
  have c2: "last_activity_of demo_state ''user123'' = Some (VStr ''2024-06-10T12:00:00.000001'')"
    by (simp add: last_activity_of_def demo_state_eq demo_profile_def)
  have c3: "last_activity_of (snd (update_recommendations demo_env ''user123'' VNone demo_state))
      ''user123'' = Some (VStr ''2024-06-10T12:00:00.000001'')"
    using g1[where env = demo_env] c2 by simp
  have t2: "isoformat_dt demo_env (clock demo_env (ticks demo_state)) = ''2024-06-10T12:00:00.000002''"
    by (simp add: demo_state_eq demo_env_def iso_simps)
  have c4: "last_activity_of (snd (record_supplement_intake demo_env ''user123'' ''vd001'' VNone demo_state))
       ''user123'' = Some (VStr ''2024-06-10T12:00:00.000002'')"
    using demo_registered touched_last_activity[OF demo_registered, of demo_env]
    by (simp add: record_supplement_intake_def resp last_activity_of_def t2)
  show ?thesis using g1 g2 c1 c2 c3 c4 by simp
qed

section \<open>Profiles\<close>

text \<open>
  Claim C8. For a registered id whose stored ciphertext decrypts to a payload,
  \<^verbatim>\<open>update_user_profile\<close> with the empty patch succeeds, calls the security
  component to decrypt and to encrypt that same payload and calls no other collaborator
  (no settings update is forwarded), and stores the new ciphertext; with a security
  component whose encryption decrypts to the value encrypted, the stored ciphertext
  decrypts to the same payload after the call as before it.
\<close>

theorem empty_patch_keeps_payload:
  assumes "map_of (active_users s) user_id = Some profile"
    and "map_of profile ''encrypted_data'' = Some c"
    and "respond env (trace s) (DecryptUserData c) = Inr payload"
    and "respond env (trace s @ [DecryptUserData c]) (EncryptUserData payload) = Inr c'"
    and "roundtrip env"
  shows "case update_user_profile env user_id [] s of
           (r, s') \<Rightarrow>
             r = Inr (VDict [(''status'', VStr ''success''),
                             (''message'', VStr ''Profile updated successfully'')]) \<and>
             trace s' = trace s @ [DecryptUserData c, EncryptUserData payload] \<and>
             stored_payload s' user_id = Some c' \<and>
             respond env (trace s') (DecryptUserData c') = Inr payload"
proof -
  have reg: "registered s user_id"
    using assms(1) by (simp add: registered_def)
  have dec: "respond env h (DecryptUserData c') = Inr payload" for h
    using assms(4,5) unfolding roundtrip_def by blast
  show ?thesis
    using assms(2,3,4) reg
    by (simp add: update_user_profile_def touched_profile[OF assms(1)] dict_item_def
        update_conv' forward_settings_def dict_get_def stored_payload_def dec)
qed

theorem empty_patch_keeps_payload_witness:
  "map_of (active_users demo_state) ''user123'' = Some demo_profile \<and>
   map_of demo_profile ''encrypted_data'' = Some (VDict [(''ciphertext'', demo_user_data)]) \<and>
   respond demo_env (trace demo_state) (DecryptUserData (VDict [(''ciphertext'', demo_user_data)])) =
     Inr demo_user_data \<and>
   roundtrip demo_env \<and>
   (case update_user_profile demo_env ''user123'' [] demo_state of
      (r, s') \<Rightarrow>
        r = Inr (VDict [(''status'', VStr ''success''),
                        (''message'', VStr ''Profile updated successfully'')]) \<and>
        trace s' = trace demo_state @
          [DecryptUserData (VDict [(''ciphertext'', demo_user_data)]),
           EncryptUserData demo_user_data] \<and>
        stored_payload s' ''user123'' = Some (VDict [(''ciphertext'', demo_user_data)]) \<and>
        respond demo_env (trace s') (DecryptUserData (VDict [(''ciphertext'', demo_user_data)])) =
          Inr demo_user_data)"
proof -
  have a1: "map_of (active_users demo_state) ''user123'' = Some demo_profile"
    by (simp add: demo_state_eq)
  have a2: "map_of demo_profile ''encrypted_data'' = Some (VDict [(''ciphertext'', demo_user_data)])"
    by (simp add: demo_profile_def)
  have a3: "respond demo_env (trace demo_state)
      (DecryptUserData (VDict [(''ciphertext'', demo_user_data)])) = Inr demo_user_data"
    by simp
  have a4: "respond demo_env
      (trace demo_state @ [DecryptUserData (VDict [(''ciphertext'', demo_user_data)])])
      (EncryptUserData demo_user_data) = Inr (VDict [(''ciphertext'', demo_user_data)])"
    by simp
  have a5: "roundtrip demo_env"
    by (auto simp: roundtrip_def demo_env_def demo_respond_def dict_item_def)
  from empty_patch_keeps_payload[OF a1 a2 a3 a4 a5] a1 a2 a3 a5 show ?thesis
    by simp
qed

text \<open>
  Claim C10, as amended. For a registered id, a profile returned by
  \<^verbatim>\<open>get_user_profile\<close> has no "password" key. One is returned when the security
  component decrypts the stored ciphertext to a dictionary: that dictionary without its
  "password" entry, with the registration time and the time of this call added. The
  stored ciphertext is left as it was when the dictionary returned by
  \<^verbatim>\<open>decrypt_user_data\<close> is a new object, not an object of the stored ciphertext.
\<close>

theorem profile_hides_password:
  assumes "registered s user_id"
  shows "case get_user_profile env user_id s of
           (r, s') \<Rightarrow>
             (case r of Inl e \<Rightarrow> True | Inr v \<Rightarrow> has_no_password r) \<and>
             ((\<forall>c. stored_payload s user_id = Some c \<longrightarrow>
                   decrypt_shares env (trace s) c = None) \<longrightarrow>
                stored_payload s' user_id = stored_payload s user_id) \<and>
             (\<forall>profile c d registered_at.
                map_of (active_users s) user_id = Some profile \<and>
                map_of profile ''encrypted_data'' = Some c \<and>
                map_of profile ''registered_at'' = Some registered_at \<and>
                respond env (trace s) (DecryptUserData c) = Inr (VDict d) \<longrightarrow>
                r = Inr (VDict
                  [(''status'', VStr ''success''),
                   (''profile'', VDict
                      (AList.update ''last_activity''
                         (VStr (isoformat_dt env (clock env (ticks s))))
                         (AList.update ''registered_at'' registered_at
                            (AList.delete ''password'' d))))]))"
proof -
  obtain profile where p: "map_of (active_users s) user_id = Some profile"
    using assms by (auto simp: registered_def)
  let ?now = "VStr (isoformat_dt env (clock env (ticks s)))"
  let ?p1 = "AList.update ''last_activity'' ?now profile"
  obtain r s' where rs: "get_user_profile env user_id s = (r, s')"
    by (cases "get_user_profile env user_id s")
  have eq: "r =
     (case dict_item ?p1 ''encrypted_data'' of
        Inl e \<Rightarrow> Inl e
      | Inr c \<Rightarrow>
          (case respond env (trace s) (DecryptUserData c) of
             Inl e \<Rightarrow> Inl e
           | Inr user_data \<Rightarrow>
               (case profile_view ?p1 user_data of
                  Inl e \<Rightarrow> Inl e
                | Inr v \<Rightarrow> Inr (VDict [(''status'', VStr ''success''), (''profile'', v)]))))"
    using get_user_profile_result[OF p, of env] by (simp add: rs Let_def)
  have stored: "stored_payload s' user_id = stored_payload s user_id"
    if "\<forall>c. stored_payload s user_id = Some c \<longrightarrow> decrypt_shares env (trace s) c = None"
    using get_user_profile_fresh[OF p, of env] that p by (simp add: rs stored_payload_def)
  have hidden: "has_no_password r" if "r = Inr v" for v
    using eq that profile_view_no_password[of ?p1]
    by (fastforce simp: has_no_password_def returned_profile_def split: sum.splits)
  have total: "r = Inr (VDict
                  [(''status'', VStr ''success''),
                   (''profile'', VDict
                      (AList.update ''last_activity'' ?now
                         (AList.update ''registered_at'' registered_at
                            (AList.delete ''password'' d))))])"
    if "map_of (active_users s) user_id = Some profile'"
      "map_of profile' ''encrypted_data'' = Some c"
      "map_of profile' ''registered_at'' = Some registered_at"
      "respond env (trace s) (DecryptUserData c) = Inr (VDict d)"
    for profile' c d registered_at
  proof -
    have [simp]: "profile' = profile" using that(1) p by simp
    have v: "profile_view ?p1 (VDict d) =
        Inr (VDict (AList.update ''last_activity'' ?now
              (AList.update ''registered_at'' registered_at (AList.delete ''password'' d))))"
      using that(3) by (intro profile_view_dict) (simp_all add: update_conv')
    show ?thesis
      using eq that(2,4) v by (simp add: dict_item_def update_conv')
  qed
  show ?thesis
    unfolding rs using stored hidden total by (auto split: sum.splits)
qed

text \<open>
  Claim C10 as stated fails. With a security component that hands back the dictionary
  it wrapped, the example user is registered as before, and reading the profile
  removes the password from the stored payload and adds the two timestamps to it.
\<close>

theorem shared_payload_counterexample:
  "register_user sharing_security ''user123'' demo_user_data init = (Inr (VBool True), demo_state) \<and>
   stored_payload demo_state ''user123'' = Some (VDict [(''ciphertext'', demo_user_data)]) \<and>
   respond sharing_security (trace demo_state)
     (DecryptUserData (VDict [(''ciphertext'', demo_user_data)])) = Inr demo_user_data \<and>
   decrypt_shares sharing_security (trace demo_state) (VDict [(''ciphertext'', demo_user_data)]) =
     Some [''ciphertext''] \<and>
   stored_payload (snd (get_user_profile sharing_security ''user123'' demo_state)) ''user123'' =
     Some (VDict
       [(''ciphertext'', VDict
           [(''name'', VStr ''John Doe''),
            (''email'', VStr ''john.doe@example.com''),
            (''age'', VInt 35),
            (''notify_healthcare_provider'', VBool True),
            (''registered_at'', VStr ''2024-06-10T12:00:00''),
            (''last_activity'', VStr ''2024-06-10T12:00:00.000002'')])]) \<and>
   stored_payload (snd (get_user_profile sharing_security ''user123'' demo_state)) ''user123'' \<noteq>
     stored_payload demo_state ''user123''"
proof -
  have env: "respond sharing_security = respond demo_env"
    "clock sharing_security = clock demo_env"
    "isoformat_dt sharing_security = isoformat_dt demo_env"
    "decrypt_shares sharing_security = (\<lambda>h c. Some [''ciphertext''])"
    by (simp_all add: sharing_security_def)
  have inv: "invoke sharing_security = invoke demo_env" "now sharing_security = now demo_env"
    by (simp_all add: fun_eq_iff invoke_def now_def env)
  have "register_user sharing_security ''user123'' demo_user_data =
      register_user demo_env ''user123'' demo_user_data"
    by (simp only: register_user_def inv env)
  then have reg: "register_user sharing_security ''user123'' demo_user_data init =
      (Inr (VBool True), demo_state)"
    by (simp only: demo_register demo_state_eq)
  have st: "stored_payload demo_state ''user123'' = Some (VDict [(''ciphertext'', demo_user_data)])"
    by (simp add: stored_payload_def demo_state_eq demo_profile_def)
  have t2: "isoformat_dt demo_env (clock demo_env (ticks demo_state)) = ''2024-06-10T12:00:00.000002''"
    by (simp add: demo_state_eq demo_env_def iso_simps)
  have t2': "isoformat_dt demo_env (clock demo_env 2) = ''2024-06-10T12:00:00.000002''"
    by (simp add: demo_env_def iso_simps)
  have a1: "map_of (active_users demo_state) ''user123'' = Some demo_profile"
    by (simp add: demo_state_eq)
  have rd: "stored_payload (snd (get_user_profile sharing_security ''user123'' demo_state)) ''user123'' =
     Some (VDict
       [(''ciphertext'', VDict
           [(''name'', VStr ''John Doe''),
            (''email'', VStr ''john.doe@example.com''),
            (''age'', VInt 35),
            (''notify_healthcare_provider'', VBool True),
            (''registered_at'', VStr ''2024-06-10T12:00:00''),
            (''last_activity'', VStr ''2024-06-10T12:00:00.000002'')])])"
    using demo_registered
    by (simp add: get_user_profile_def env t2 touched_def a1 demo_profile_def dict_item_def
        demo_user_data_def write_through_def stored_payload_def update_conv' demo_state_eq t2')
  show ?thesis
    using reg st rd by (simp add: env demo_user_data_def)
qed

theorem profile_hides_password_witness:
  "registered demo_state ''user123'' \<and>
   stored_payload demo_state ''user123'' = Some (VDict [(''ciphertext'', demo_user_data)]) \<and>
   decrypt_shares demo_env (trace demo_state) (VDict [(''ciphertext'', demo_user_data)]) = None \<and>
   stored_payload (snd (get_user_profile demo_env ''user123'' demo_state)) ''user123'' =
     stored_payload demo_state ''user123'' \<and>
   has_no_password (fst (get_user_profile demo_env ''user123'' demo_state)) \<and>
   fst (get_user_profile demo_env ''user123'' demo_state) =
     Inr (VDict
       [(''status'', VStr ''success''),
        (''profile'', VDict
           [(''name'', VStr ''John Doe''),
            (''email'', VStr ''john.doe@example.com''),
            (''age'', VInt 35),
            (''notify_healthcare_provider'', VBool True),
            (''registered_at'', VStr ''2024-06-10T12:00:00''),
            (''last_activity'', VStr ''2024-06-10T12:00:00.000002'')])])"
proof -
  obtain r s' where rs: "get_user_profile demo_env ''user123'' demo_state = (r, s')"
    by (cases "get_user_profile demo_env ''user123'' demo_state")
  have fresh: "\<forall>c. stored_payload demo_state ''user123'' = Some c \<longrightarrow>
      decrypt_shares demo_env (trace demo_state) c = None"
    by (simp add: demo_env_def)
  note h = profile_hides_password[OF demo_registered, of demo_env, unfolded rs, simplified]
  have a1: "map_of (active_users demo_state) ''user123'' = Some demo_profile"
    by (simp add: demo_state_eq)
  have a2: "map_of demo_profile ''encrypted_data'' = Some (VDict [(''ciphertext'', demo_user_data)])"
    "map_of demo_profile ''registered_at'' = Some (VStr ''2024-06-10T12:00:00'')"
    by (simp_all add: demo_profile_def)
  have a3: "respond demo_env (trace demo_state)
      (DecryptUserData (VDict [(''ciphertext'', demo_user_data)])) = Inr demo_user_data"
    by simp
  have t2: "isoformat_dt demo_env (clock demo_env (ticks demo_state)) = ''2024-06-10T12:00:00.000002''"
    by (simp add: demo_state_eq demo_env_def iso_simps)
  have r: "r = Inr (VDict
       [(''status'', VStr ''success''),
        (''profile'', VDict
           [(''name'', VStr ''John Doe''),
            (''email'', VStr ''john.doe@example.com''),
            (''age'', VInt 35),
            (''notify_healthcare_provider'', VBool True),
            (''registered_at'', VStr ''2024-06-10T12:00:00''),
            (''last_activity'', VStr ''2024-06-10T12:00:00.000002'')])])"
    using h a1 a2 a3[unfolded demo_user_data_def] by (simp add: t2 demo_user_data_def)
  have st: "stored_payload s' ''user123'' = stored_payload demo_state ''user123''"
    using h fresh by blast
  have sp: "stored_payload demo_state ''user123'' = Some (VDict [(''ciphertext'', demo_user_data)])"
    by (simp add: stored_payload_def a1 a2)
  have ds: "decrypt_shares demo_env (trace demo_state) (VDict [(''ciphertext'', demo_user_data)]) = None"
    by (simp add: demo_env_def)
  have hp: "has_no_password r"
    using h r by simp
  show ?thesis
    unfolding rs fst_conv snd_conv
    using hp st sp ds demo_registered r by blast
qed

section \<open>Failed registrations\<close>

text \<open>
  Claim C1, as amended. For an id that is not in the registry, \<^verbatim>\<open>register_user\<close>
  calls the security component and then the five registrations in the fixed order,
  stopping at the first call that raises. When all six calls return - whatever the
  registrations return - the result is \<^verbatim>\<open>True\<close> and the profile is in the registry.
  When a call raises, the exception is passed on to the caller, the registry is
  unchanged, so no entry for the id is created, and the failing call is the last call
  made: no collaborator is asked for anything after it. The id is in the registry after
  the call exactly when no call raised.
\<close>

theorem register_user_all_or_nothing:
  assumes "\<not> registered s user_id"
  shows "case register_user env user_id user_data s of
           (r, s') \<Rightarrow>
             trace s' = trace s @ new_calls s s' \<and>
             prefix (new_calls s s') (register_order user_id user_data) \<and>
             registered s' user_id = all_return env (trace s) (register_order user_id user_data) \<and>
             (all_return env (trace s) (register_order user_id user_data) \<longrightarrow>
                r = Inr (VBool True) \<and> new_calls s s' = register_order user_id user_data) \<and>
             (\<not> all_return env (trace s) (register_order user_id user_data) \<longrightarrow>
                active_users s' = active_users s \<and>
                raised_by_last_call env (trace s) (new_calls s s') r)"
  using assms
  by (simp add: register_user_def register_order_def new_calls_def raised_by_last_call_def
      registered_def update_conv' split: sum.splits)

text \<open>
  Claim C1 as stated fails. With a recommender that refuses the registration, the
  sensor and the analyzer have registered the user when the third registration raises;
  the exception ends the operation, and neither of them is asked for anything after the
  failing call.
\<close>

theorem no_rollback_counterexample:
  "respond recommender_down [EncryptUserData demo_user_data]
     (RegisterUser Sensor ''user123'' demo_user_data) = Inr (VBool True) \<and>
   fst (register_user recommender_down ''user123'' demo_user_data init) =
     Inl (CollaboratorError ''recommender unavailable'') \<and>
   trace (snd (register_user recommender_down ''user123'' demo_user_data init)) =
     [EncryptUserData demo_user_data,
      RegisterUser Sensor ''user123'' demo_user_data,
      RegisterUser Analyzer ''user123'' demo_user_data,
      RegisterUser Recommender ''user123'' demo_user_data] \<and>
   \<not> asked_after (trace (snd (register_user recommender_down ''user123'' demo_user_data init)))
        (RegisterUser Recommender ''user123'' demo_user_data) Sensor \<and>
   \<not> asked_after (trace (snd (register_user recommender_down ''user123'' demo_user_data init)))
        (RegisterUser Recommender ''user123'' demo_user_data) Analyzer"
  by (simp add: recommender_down_register asked_after_def calls_after_def)

theorem register_user_all_or_nothing_witness:
  "\<not> registered init ''user123'' \<and>
   all_return demo_env (trace init) (register_order ''user123'' demo_user_data) \<and>
   \<not> all_return recommender_down (trace init) (register_order ''user123'' demo_user_data) \<and>
   (case register_user demo_env ''user123'' demo_user_data init of
      (r, s') \<Rightarrow>
        r = Inr (VBool True) \<and> registered s' ''user123'' \<and>
        new_calls init s' = register_order ''user123'' demo_user_data) \<and>
   (case register_user recommender_down ''user123'' demo_user_data init of
      (r, s') \<Rightarrow>
        \<not> registered s' ''user123'' \<and> active_users s' = active_users init \<and>
        raised_by_last_call recommender_down (trace init) (new_calls init s') r)"
proof -
  have n: "\<not> registered init ''user123''"
    by (simp add: registered_def init_def)
  have a: "all_return demo_env (trace init) (register_order ''user123'' demo_user_data)"
    by (simp add: register_order_def)
  have b: "\<not> all_return recommender_down (trace init) (register_order ''user123'' demo_user_data)"
    by (simp add: register_order_def)
  show ?thesis
    using register_user_all_or_nothing[OF n, where env = demo_env and user_data = demo_user_data]
      register_user_all_or_nothing[OF n, where env = recommender_down
        and user_data = demo_user_data] n a b
    by (simp split: prod.splits)
qed

end
